theory Spec2Isabelle
  imports Main "HOL-Library.DAList"
begin

section \<open>The procedure registry (class Router)\<close>

text \<open>
  A \<open>Router\<close> holds one object, \<open>_endpoints\<close>, from path strings to resolver functions.
  A JavaScript object has each own key once and enumerates its string keys in insertion
  order, so the object is an association list with distinct keys
  (\<^typ>\<open>(string, 'r) alist\<close>): \<open>DAList.update\<close> overwrites the value of a key that is
  present, in place, and appends a key that is new, which is what the object spread
  \<open>{...this._endpoints, ...route}\<close> does. The resolver functions are opaque values of a
  type \<open>'r\<close>. Only own properties are modelled; keys that look like array indices, which
  a JavaScript engine enumerates first, keep their insertion position here, and no
  statement below depends on the position of a parent's keys.
\<close>

datatype 'r Router = Router (endpoints: "(string, 'r) alist")

text \<open>\<open>new Router()\<close>: the constructor's default, an empty object.\<close>

definition new_Router :: "'r Router" where
  "new_Router = Router DAList.empty"

text \<open>
  \<open>endpoint(path, resolver)\<close> returns a new router whose object is the spread of the old
  one followed by the one-entry object \<open>{[path]: resolver}\<close>. There is no check of
  \<open>path\<close> and no check for an existing entry.
\<close>

definition endpoint :: "string \<Rightarrow> 'r \<Rightarrow> 'r Router \<Rightarrow> 'r Router" where
  "endpoint path resolver this = Router (DAList.update path resolver (endpoints this))"

definition Object_keys :: "(string, 'r) alist \<Rightarrow> string list" where
  "Object_keys obj = map fst (DAList.impl_of obj)"

text \<open>
  \<open>compose(path, router)\<close> reduces over \<open>Object.keys(router._endpoints)\<close>, starting from
  \<open>this\<close>, registering \<open>router._endpoints[key]\<close> under the key \<open>`${path}/${key}`\<close>.
\<close>

definition compose :: "string \<Rightarrow> 'r Router \<Rightarrow> 'r Router \<Rightarrow> 'r Router" where
  "compose path router this =
     foldl (\<lambda>r key. endpoint (path @ ''/'' @ key) (the (DAList.lookup (endpoints router) key)) r)
       this (Object_keys (endpoints router))"

text \<open>
  \<open>handler(ctx)(path, ...args)\<close> calls \<open>this._endpoints[path]\<close>; the model returns the
  resolver that is called, \<open>None\<close> when the object has no such own property. \<open>has(path)\<close>
  is the truthiness of the same lookup.
\<close>

definition handler :: "'r Router \<Rightarrow> string \<Rightarrow> 'r option" where
  "handler this path = DAList.lookup (endpoints this) path"

definition has :: "string \<Rightarrow> 'r Router \<Rightarrow> bool" where
  "has path this = (handler this path \<noteq> None)"




section \<open>Values, failures and envelopes (http.ts)\<close>

text \<open>
  The values that travel through the handler as \<open>unknown\<close> (inputs, outputs, the parsed
  query, the request body). Numbers are integers here; \<open>truthy\<close> is the test behind
  \<open>!queryInput\<close> and \<open>input ? ... : input\<close>.
\<close>

datatype js_value = JUndefined | JNull | JBool bool | JNum int | JStr string
  | JArr "js_value list" | JObj "(string \<times> js_value) list"

fun truthy :: "js_value \<Rightarrow> bool" where
  "truthy JUndefined = False"
| "truthy JNull = False"
| "truthy (JBool b) = b"
| "truthy (JNum n) = (n \<noteq> 0)"
| "truthy (JStr s) = (s \<noteq> [])"
| "truthy (JArr xs) = True"
| "truthy (JObj kvs) = True"

text \<open>
  The reasons a subscription is destroyed with, and the classes that the handler tells
  apart with \<open>instanceof\<close>. A \<open>SubscriptionDestroyError\<close> carries its \<open>reason\<close>;
  \<open>Error_class\<close> stands for every other thrown value.
\<close>

datatype SubscriptionDestroyReason = Closed | Timeout | Stopped

datatype error_class = InputValidationError_class | RouteNotFoundError_class | HTTPError_class
  | SubscriptionDestroyError_class SubscriptionDestroyReason | Error_class

text \<open>
  A thrown value, as \<open>getErrorResponseEnvelope\<close> reads it (\<open>Partial<HTTPError>\<close>): each of
  \<open>statusCode\<close>, \<open>message\<close> and \<open>stack\<close> is either a value of its declared type or
  \<open>None\<close>, which stands for a property that is missing or fails the \<open>typeof\<close> test.
\<close>

record js_error =
  instance_of :: error_class
  statusCode :: "int option"
  message :: "string option"
  stack :: "string option"

text \<open>
  What the code takes from its JavaScript runtime: the environment variable
  \<open>process.env.NODE_ENV\<close>; the \<open>stack\<close> that the \<open>Error\<close> constructor records for an
  error with a given message; \<open>JSON.parse\<close>, with \<open>None\<close> for a thrown \<open>SyntaxError\<close>;
  the message of the \<open>TypeError\<close> raised by reading a property of \<open>undefined\<close> or
  \<open>null\<close>; and the properties other than class and \<open>reason\<close> of the error a destroyed
  subscription rejects with (class \<open>SubscriptionDestroyError\<close> is imported from
  \<open>./subscription\<close>).
\<close>

record runtime =
  NODE_ENV :: "string option"
  captureStack :: "string \<Rightarrow> string option"
  JSON_parse :: "string \<Rightarrow> js_value option"
  TypeError_message :: string
  destroyError :: "SubscriptionDestroyReason \<Rightarrow> js_error"

text \<open>\<open>new HTTPError(statusCode, message)\<close> and the four constructors of \<open>httpError\<close>.\<close>

definition HTTPError :: "runtime \<Rightarrow> int \<Rightarrow> string \<Rightarrow> js_error" where
  "HTTPError rt code msg =
     \<lparr>instance_of = HTTPError_class, statusCode = Some code, message = Some msg,
      stack = captureStack rt msg\<rparr>"

definition httpError_forbidden :: "runtime \<Rightarrow> string option \<Rightarrow> js_error" where
  "httpError_forbidden rt msg = HTTPError rt 403 (case msg of None \<Rightarrow> ''Forbidden'' | Some m \<Rightarrow> m)"

definition httpError_unauthorized :: "runtime \<Rightarrow> string option \<Rightarrow> js_error" where
  "httpError_unauthorized rt msg = HTTPError rt 401 (case msg of None \<Rightarrow> ''Unauthorized'' | Some m \<Rightarrow> m)"

definition httpError_badRequest :: "runtime \<Rightarrow> string option \<Rightarrow> js_error" where
  "httpError_badRequest rt msg = HTTPError rt 400 (case msg of None \<Rightarrow> ''Bad Request'' | Some m \<Rightarrow> m)"

definition httpError_notFound :: "runtime \<Rightarrow> string option \<Rightarrow> js_error" where
  "httpError_notFound rt msg = HTTPError rt 404 (case msg of None \<Rightarrow> ''Not found'' | Some m \<Rightarrow> m)"

text \<open>
  \<open>HTTPResponseEnvelope\<close>, a union tagged by \<open>ok\<close>: the discriminator \<open>ok\<close> is true on a
  success envelope and false on an error envelope, whose \<open>error\<close> object is flattened
  into \<open>error_message\<close> and \<open>error_stack\<close>.
\<close>

datatype HTTPResponseEnvelope =
    ok: HTTPSuccessResponseEnvelope (env_statusCode: int) (data: js_value)
  | HTTPErrorResponseEnvelope (env_statusCode: int) (error_message: string) (error_stack: "string option")

text \<open>
  \<open>getErrorResponseEnvelope(_err)\<close>. The argument is optional (\<open>None\<close> is an undefined or
  null value, on which every \<open>err?.x\<close> is undefined).
\<close>

definition getErrorResponseEnvelope :: "runtime \<Rightarrow> js_error option \<Rightarrow> HTTPResponseEnvelope" where
  "getErrorResponseEnvelope rt err0 =
     (let err = (case err0 of
                   None \<Rightarrow> None
                 | Some e \<Rightarrow>
                     if instance_of e = InputValidationError_class
                       then Some (httpError_badRequest rt (message e))
                     else if instance_of e = RouteNotFoundError_class
                       then Some (httpError_notFound rt (message e))
                     else Some e);
          code = (case err of None \<Rightarrow> 500
                  | Some e \<Rightarrow> (case statusCode e of Some n \<Rightarrow> n | None \<Rightarrow> 500));
          msg = (case err of None \<Rightarrow> ''Internal Server Error''
                 | Some e \<Rightarrow> (case message e of Some m \<Rightarrow> m | None \<Rightarrow> ''Internal Server Error''));
          stk = (if NODE_ENV rt \<noteq> Some ''production''
                 then (case err of None \<Rightarrow> None | Some e \<Rightarrow> stack e)
                 else None)
      in HTTPErrorResponseEnvelope code msg stk)"

text \<open>\<open>BaseRequest\<close>: \<open>method\<close> (the field \<open>http_method\<close>), the parsed query string and the body (\<open>body?: any\<close>).\<close>

record BaseRequest =
  http_method :: "string option"
  query :: "(string \<times> js_value) list"
  body :: js_value

text \<open>\<open>req.query.input\<close>.\<close>

definition query_input :: "BaseRequest \<Rightarrow> js_value" where
  "query_input rq = (case map_of (query rq) ''input'' of None \<Rightarrow> JUndefined | Some v \<Rightarrow> v)"

definition getQueryInput :: "runtime \<Rightarrow> BaseRequest \<Rightarrow> js_error + js_value" where
  "getQueryInput rt rq =
     (let queryInput = query_input rq in
      if \<not> truthy queryInput then Inr JUndefined
      else (case queryInput of
              JStr s \<Rightarrow>
                (case JSON_parse rt s of
                   Some v \<Rightarrow> Inr v
                 | None \<Rightarrow> Inl (httpError_badRequest rt (Some ''Expected query.input to be a JSON string'')))
            | _ \<Rightarrow> Inl (httpError_badRequest rt (Some ''Expected query.input to be a JSON string''))))"

text \<open>
  \<open>req.body.input\<close>: reading a property of \<open>undefined\<close> or \<open>null\<close> throws a \<open>TypeError\<close>;
  an object gives the property or \<open>undefined\<close>; any other value has no \<open>input\<close>.
\<close>

definition TypeError :: "runtime \<Rightarrow> js_error" where
  "TypeError rt =
     \<lparr>instance_of = Error_class, statusCode = None, message = Some (TypeError_message rt),
      stack = captureStack rt (TypeError_message rt)\<rparr>"

fun body_input :: "runtime \<Rightarrow> js_value \<Rightarrow> js_error + js_value" where
  "body_input rt JUndefined = Inl (TypeError rt)"
| "body_input rt JNull = Inl (TypeError rt)"
| "body_input rt (JObj kvs) = Inr (case map_of kvs ''input'' of None \<Rightarrow> JUndefined | Some v \<Rightarrow> v)"
| "body_input rt v = Inr JUndefined"

text \<open>
  The options of the handler. \<open>router.invoke\<close> and \<open>createContext\<close> are the caller's
  functions, with their awaited result (\<open>Inl\<close>: they throw or reject); \<open>teardown\<close> is the
  optional hook with its awaited result; a transformer's functions may throw. The
  response object contributes \<open>res.statusCode\<close>. Timeouts are natural numbers of
  milliseconds.
\<close>

record DataTransformer =
  serialize :: "js_value \<Rightarrow> js_error + js_value"
  deserialize :: "js_value \<Rightarrow> js_error + js_value"

record SubscriptionOptions =
  timeout :: "nat option"

datatype invoke_target = Queries | Mutations | Subscriptions

record 'ctx RequestHandlerArgs =
  req :: BaseRequest
  res_statusCode :: "int option"
  router_invoke :: "invoke_target \<Rightarrow> js_value \<Rightarrow> 'ctx \<Rightarrow> string \<Rightarrow> js_error + js_value"
  endpoint_path :: string
  subscriptions :: "SubscriptionOptions option"
  createContext :: "BaseRequest \<Rightarrow> js_error + 'ctx"
  teardown :: "(js_error + unit) option"
  transformer :: "DataTransformer option"


section \<open>Effects and the state of one request\<close>

text \<open>
  What a request does to its collaborators, in order: calls of \<open>router.invoke\<close>,
  \<open>res.once('close', onClose)\<close>, \<open>res.off('close', onClose)\<close>, \<open>setTimeout\<close>,
  \<open>clearTimeout\<close>, \<open>sub.destroy(reason)\<close>, \<open>res.status(code).json(json)\<close>, the call of
  \<open>teardown\<close> and \<open>console.error('Teardown failed', err)\<close>.
\<close>

datatype effect =
    RouterInvoke invoke_target js_value string
  | ResOnceClose
  | ResOffClose
  | SetTimeout nat
  | ClearTimeout
  | SubDestroy SubscriptionDestroyReason
  | ResJson HTTPResponseEnvelope
  | TeardownCall
  | ConsoleError js_error

text \<open>
  The state: whether \<open>onClose\<close> is registered on the response, whether the timer is
  pending, the outcome of the subscription handle's wait once it has one, and the effects
  so far.
\<close>

record handler_state =
  closeListener :: bool
  timerPending :: bool
  subOutcome :: "(js_error + js_value) option"
  effects :: "effect list"

definition initial_state :: handler_state where
  "initial_state = \<lparr>closeListener = False, timerPending = False, subOutcome = None, effects = []\<rparr>"

definition emit :: "effect \<Rightarrow> handler_state \<Rightarrow> handler_state" where
  "emit x s = s\<lparr>effects := effects s @ [x]\<rparr>"

definition res_once_close :: "handler_state \<Rightarrow> handler_state" where
  "res_once_close s = emit ResOnceClose (s\<lparr>closeListener := True\<rparr>)"

definition res_off_close :: "handler_state \<Rightarrow> handler_state" where
  "res_off_close s = emit ResOffClose (s\<lparr>closeListener := False\<rparr>)"

definition setTimeout :: "nat \<Rightarrow> handler_state \<Rightarrow> handler_state" where
  "setTimeout ms s = emit (SetTimeout ms) (s\<lparr>timerPending := True\<rparr>)"

definition clearTimeout :: "handler_state \<Rightarrow> handler_state" where
  "clearTimeout s = emit ClearTimeout (s\<lparr>timerPending := False\<rparr>)"

text \<open>
  Modelled from the spec: the subscription handle (class \<open>Subscription\<close> and class
  \<open>SubscriptionDestroyError\<close> of \<open>./subscription\<close>, which are not among the sources).
  The spec gives the handle one wait, for either a terminal output or a termination
  reason, and one action, requesting termination with a reason; at most one terminal
  outcome is ever produced, and requesting termination after it is a no-op. The handler
  shows how a termination arrives: the wait \<open>onceOutputAndStop()\<close> rejects with a
  \<open>SubscriptionDestroyError\<close> whose \<open>reason\<close> is the one given to \<open>destroy\<close>.
\<close>

definition SubscriptionDestroyError :: "runtime \<Rightarrow> SubscriptionDestroyReason \<Rightarrow> js_error" where
  "SubscriptionDestroyError rt reason =
     (destroyError rt reason)\<lparr>instance_of := SubscriptionDestroyError_class reason\<rparr>"

text \<open>
  Modelled from the spec: \<open>sub.destroy(reason)\<close>, the request for termination. The
  call is recorded; a handle without an outcome gets the rejection with that reason as its
  outcome, and a handle that has an outcome keeps it.
\<close>

definition sub_destroy :: "runtime \<Rightarrow> SubscriptionDestroyReason \<Rightarrow> handler_state \<Rightarrow> handler_state" where
  "sub_destroy rt reason s =
     emit (SubDestroy reason)
       (s\<lparr>subOutcome := (case subOutcome s of
                            None \<Rightarrow> Some (Inl (SubscriptionDestroyError rt reason))
                          | Some r \<Rightarrow> Some r)\<rparr>)"

text \<open>
  The events of the environment while a subscription is awaited and after: the handle
  produces its output, the handle fails with an error of its own, the response emits
  \<open>close\<close>, the deadline elapses. \<open>fire\<close> runs what is registered for the event: the
  listener \<open>onClose\<close> (registered with \<open>once\<close>, so it is removed when it runs) calls
  \<open>sub.destroy('closed')\<close>; the timer's callback calls \<open>sub.destroy('timeout')\<close>. An
  event with nothing registered for it does nothing.
\<close>

datatype sub_event = SubOutput js_value | SubError js_error | ResClose | TimerElapsed

fun fire :: "runtime \<Rightarrow> sub_event \<Rightarrow> handler_state \<Rightarrow> handler_state" where
  "fire rt (SubOutput v) s =
     (case subOutcome s of None \<Rightarrow> s\<lparr>subOutcome := Some (Inr v)\<rparr> | Some r \<Rightarrow> s)"
| "fire rt (SubError e) s =
     (case subOutcome s of None \<Rightarrow> s\<lparr>subOutcome := Some (Inl e)\<rparr> | Some r \<Rightarrow> s)"
| "fire rt ResClose s =
     (if closeListener s then sub_destroy rt Closed (s\<lparr>closeListener := False\<rparr>) else s)"
| "fire rt TimerElapsed s =
     (if timerPending s then sub_destroy rt Timeout (s\<lparr>timerPending := False\<rparr>) else s)"

text \<open>
  Modelled from the spec: \<open>await sub.onceOutputAndStop()\<close>, the handle's wait. Events
  are taken in order until the handle has an outcome; the result is the outcome, the
  state, and the events that have not happened yet. \<open>None\<close>: no event of the trace
  settles the wait, and the handler never resumes.
\<close>

fun onceOutputAndStop ::
  "runtime \<Rightarrow> handler_state \<Rightarrow> sub_event list
    \<Rightarrow> ((js_error + js_value) \<times> handler_state \<times> sub_event list) option" where
  "onceOutputAndStop rt s [] =
     (case subOutcome s of Some r \<Rightarrow> Some (r, s, []) | None \<Rightarrow> None)"
| "onceOutputAndStop rt s (e # es) =
     (case subOutcome s of
        Some r \<Rightarrow> Some (r, s, e # es)
      | None \<Rightarrow> onceOutputAndStop rt (fire rt e s) es)"

text \<open>
  The text of a number in a template literal, \<open>`${timeout}`\<close>, for a natural number in
  the range of safe integers: its decimal digits.
\<close>

fun Number_toString :: "nat \<Rightarrow> string" where
  "Number_toString n =
     (if n < 10 then [''0123456789'' ! n]
      else Number_toString (n div 10) @ [''0123456789'' ! (n mod 10)])"

declare Number_toString.simps [simp del]


section \<open>The request handler (requestHandler)\<close>

text \<open>\<open>deserializeInput\<close>: \<open>input ? transformer.deserialize(input) : input\<close>.\<close>

definition deserializeInput :: "DataTransformer \<Rightarrow> js_value \<Rightarrow> js_error + js_value" where
  "deserializeInput tr inp = (if truthy inp then deserialize tr inp else Inr inp)"

text \<open>
  The defaults of the handler: the identity transformer, \<open>req.method ?? 'GET'\<close>, and
  \<open>subscriptions?.timeout ?? 9000\<close>.
\<close>

definition the_transformer :: "'ctx RequestHandlerArgs \<Rightarrow> DataTransformer" where
  "the_transformer a =
     (case transformer a of None \<Rightarrow> \<lparr>serialize = Inr, deserialize = Inr\<rparr> | Some tr \<Rightarrow> tr)"

definition request_method :: "'ctx RequestHandlerArgs \<Rightarrow> string" where
  "request_method a = (case http_method (req a) of None \<Rightarrow> ''GET'' | Some m \<Rightarrow> m)"

definition subscription_timeout :: "'ctx RequestHandlerArgs \<Rightarrow> nat" where
  "subscription_timeout a =
     (case subscriptions a of
        None \<Rightarrow> 9000
      | Some opts \<Rightarrow> (case timeout opts of None \<Rightarrow> 9000 | Some ms \<Rightarrow> ms))"

text \<open>\<open>await router.invoke({target, input, ctx, path: endpoint})\<close>, recorded as an effect.\<close>

definition invoke ::
  "'ctx RequestHandlerArgs \<Rightarrow> invoke_target \<Rightarrow> js_value \<Rightarrow> 'ctx \<Rightarrow> handler_state
    \<Rightarrow> (js_error + js_value) \<times> handler_state" where
  "invoke a target inp ctx s =
     (router_invoke a target inp ctx (endpoint_path a),
      emit (RouterInvoke target inp (endpoint_path a)) s)"

text \<open>
  The result of the code inside the outer \<open>try\<close> up to the point where \<open>output\<close> is
  known: the output or the thrown value, the state, and the events that have not happened
  yet; \<open>None\<close> when the handler waits forever.
\<close>

type_synonym try_result = "((js_error + js_value) \<times> handler_state \<times> sub_event list) option"

text \<open>
  The subscription part of the \<open>PATCH\<close> branch, from \<open>res.once('close', onClose)\<close> on:
  the listener is registered, the timer is set, the handle is awaited. On output the
  \<open>try\<close> block removes the listener. On rejection the \<open>catch\<close> block removes the
  listener and clears the timer, and throws the 408 error for a destroy error with reason
  \<open>timeout\<close> and the rejection itself otherwise.
\<close>

definition await_subscription :: "runtime \<Rightarrow> nat \<Rightarrow> handler_state \<Rightarrow> sub_event list \<Rightarrow> try_result" where
  "await_subscription rt ms s evs =
     (case onceOutputAndStop rt (setTimeout ms (res_once_close s)) evs of
        None \<Rightarrow> None
      | Some (Inr out, s', rest) \<Rightarrow> Some (Inr out, res_off_close s', rest)
      | Some (Inl err, s', rest) \<Rightarrow>
          (let s'' = clearTimeout (res_off_close s') in
           if instance_of err = SubscriptionDestroyError_class Timeout
           then Some (Inl (HTTPError rt 408
                  (''Subscription exceeded '' @ Number_toString ms @ ''ms - please reconnect.'')),
                  s'', rest)
           else Some (Inl err, s'', rest)))"

definition post_branch :: "runtime \<Rightarrow> 'ctx RequestHandlerArgs \<Rightarrow> 'ctx \<Rightarrow> sub_event list \<Rightarrow> try_result" where
  "post_branch rt a ctx evs =
     (case body_input rt (body (req a)) of
        Inl err \<Rightarrow> Some (Inl err, initial_state, evs)
      | Inr raw \<Rightarrow>
          (case deserializeInput (the_transformer a) raw of
             Inl err \<Rightarrow> Some (Inl err, initial_state, evs)
           | Inr inp \<Rightarrow>
               (case invoke a Mutations inp ctx initial_state of
                  (r, s) \<Rightarrow> Some (r, s, evs))))"

definition get_branch :: "runtime \<Rightarrow> 'ctx RequestHandlerArgs \<Rightarrow> 'ctx \<Rightarrow> sub_event list \<Rightarrow> try_result" where
  "get_branch rt a ctx evs =
     (case getQueryInput rt (req a) of
        Inl err \<Rightarrow> Some (Inl err, initial_state, evs)
      | Inr raw \<Rightarrow>
          (case deserializeInput (the_transformer a) raw of
             Inl err \<Rightarrow> Some (Inl err, initial_state, evs)
           | Inr inp \<Rightarrow>
               (case invoke a Queries inp ctx initial_state of
                  (r, s) \<Rightarrow> Some (r, s, evs))))"

definition patch_branch :: "runtime \<Rightarrow> 'ctx RequestHandlerArgs \<Rightarrow> 'ctx \<Rightarrow> sub_event list \<Rightarrow> try_result" where
  "patch_branch rt a ctx evs =
     (case body_input rt (body (req a)) of
        Inl err \<Rightarrow> Some (Inl err, initial_state, evs)
      | Inr raw \<Rightarrow>
          (case deserializeInput (the_transformer a) raw of
             Inl err \<Rightarrow> Some (Inl err, initial_state, evs)
           | Inr inp \<Rightarrow>
               (case invoke a Subscriptions inp ctx initial_state of
                  (Inl err, s) \<Rightarrow> Some (Inl err, s, evs)
                | (Inr sub, s) \<Rightarrow> await_subscription rt (subscription_timeout a) s evs)))"

text \<open>
  The outer \<open>try\<close> block: the context is created first, then the method selects the
  branch; any other method throws a 400 error.
\<close>

definition requestHandler_try :: "runtime \<Rightarrow> 'ctx RequestHandlerArgs \<Rightarrow> sub_event list \<Rightarrow> try_result" where
  "requestHandler_try rt a evs =
     (case createContext a (req a) of
        Inl err \<Rightarrow> Some (Inl err, initial_state, evs)
      | Inr ctx \<Rightarrow>
          if request_method a = ''POST'' then post_branch rt a ctx evs
          else if request_method a = ''GET'' then get_branch rt a ctx evs
          else if request_method a = ''PATCH'' then patch_branch rt a ctx evs
          else Some (Inl (httpError_badRequest rt
                 (Some (''Unexpected request method '' @ request_method a))), initial_state, evs))"

text \<open>
  The envelope that is written: the success envelope with the serialized output and
  \<open>res.statusCode ?? 200\<close> at the end of the \<open>try\<close> block, or, in the outer \<open>catch\<close>, the
  error envelope of whatever was thrown (by a branch or by \<open>transformer.serialize\<close>).
\<close>

definition response_json :: "runtime \<Rightarrow> 'ctx RequestHandlerArgs \<Rightarrow> js_error + js_value \<Rightarrow> HTTPResponseEnvelope" where
  "response_json rt a r =
     (case r of
        Inl err \<Rightarrow> getErrorResponseEnvelope rt (Some err)
      | Inr output \<Rightarrow>
          (case serialize (the_transformer a) output of
             Inl err \<Rightarrow> getErrorResponseEnvelope rt (Some err)
           | Inr d \<Rightarrow>
               HTTPSuccessResponseEnvelope
                 (case res_statusCode a of None \<Rightarrow> 200 | Some c \<Rightarrow> c) d))"

text \<open>
  The last statement of the handler, \<open>try { teardown && (await teardown()) } catch (err)
  { console.error('Teardown failed', err) }\<close>: nothing without a hook, the call, and the
  log when the call fails.
\<close>

fun teardown_effects :: "(js_error + unit) option \<Rightarrow> effect list" where
  "teardown_effects None = []"
| "teardown_effects (Some (Inr u)) = [TeardownCall]"
| "teardown_effects (Some (Inl err)) = [TeardownCall, ConsoleError err]"

text \<open>
  \<open>requestHandler\<close>: the \<open>try\<close> block, the response, the teardown step. The result is
  the state when the handler returns and the events still to come; \<open>None\<close> when it never
  returns. The functions \<open>res.status\<close>, \<open>res.json\<close> and \<open>console.error\<close> return.
\<close>

definition requestHandler ::
  "runtime \<Rightarrow> 'ctx RequestHandlerArgs \<Rightarrow> sub_event list \<Rightarrow> (handler_state \<times> sub_event list) option" where
  "requestHandler rt a evs =
     (case requestHandler_try rt a evs of
        None \<Rightarrow> None
      | Some (r, s, rest) \<Rightarrow>
          (let s1 = emit (ResJson (response_json rt a r)) s;
               s2 = s1\<lparr>effects := effects s1 @ teardown_effects (teardown a)\<rparr>
           in Some (s2, rest)))"

text \<open>
  Everything a request does: the effects of the handler, followed by those of the events
  that happen after it has returned, on whatever is still registered then.
\<close>

definition observed :: "runtime \<Rightarrow> 'ctx RequestHandlerArgs \<Rightarrow> sub_event list \<Rightarrow> effect list option" where
  "observed rt a evs =
     (case requestHandler rt a evs of
        None \<Rightarrow> None
      | Some (s, rest) \<Rightarrow> Some (effects (foldl (\<lambda>s e. fire rt e s) s rest)))"

text \<open>
  \<open>requestHandler\<close> once more, with the response's \<open>res.status(code).json(json)\<close> as a
  function that may throw (\<open>Some err\<close>) instead of returning. The call at the end of the
  \<open>try\<close> block is guarded by the outer \<open>catch\<close>, which then replies a second time with
  the error envelope of what was thrown; the call in the \<open>catch\<close> block is not guarded,
  so what it throws leaves the handler before the teardown statement is reached. The
  result adds to the state what the handler throws, \<open>None\<close> when it returns.
\<close>

definition requestHandler_res ::
  "(HTTPResponseEnvelope \<Rightarrow> js_error option) \<Rightarrow> runtime \<Rightarrow> 'ctx RequestHandlerArgs
     \<Rightarrow> sub_event list \<Rightarrow> (js_error option \<times> handler_state \<times> sub_event list) option" where
  "requestHandler_res res_json rt a evs =
     (case requestHandler_try rt a evs of
        None \<Rightarrow> None
      | Some (r, s, rest) \<Rightarrow>
          (let tried =
                 (case r of
                    Inl err \<Rightarrow> (Some err, s)
                  | Inr output \<Rightarrow>
                      (case serialize (the_transformer a) output of
                         Inl err \<Rightarrow> (Some err, s)
                       | Inr d \<Rightarrow>
                           (let json = HTTPSuccessResponseEnvelope
                                         (case res_statusCode a of None \<Rightarrow> 200 | Some c \<Rightarrow> c) d
                            in (res_json json, emit (ResJson json) s))))
           in case tried of
                (None, s1) \<Rightarrow>
                  Some (None, s1\<lparr>effects := effects s1 @ teardown_effects (teardown a)\<rparr>, rest)
              | (Some err, s1) \<Rightarrow>
                  (let json = getErrorResponseEnvelope rt (Some err);
                       s2 = emit (ResJson json) s1
                   in case res_json json of
                        Some thrown \<Rightarrow> Some (Some thrown, s2, rest)
                      | None \<Rightarrow>
                          Some (None, s2\<lparr>effects := effects s2 @ teardown_effects (teardown a)\<rparr>,
                                rest))))"

definition observed_res ::
  "(HTTPResponseEnvelope \<Rightarrow> js_error option) \<Rightarrow> runtime \<Rightarrow> 'ctx RequestHandlerArgs
     \<Rightarrow> sub_event list \<Rightarrow> (js_error option \<times> effect list) option" where
  "observed_res res_json rt a evs =
     (case requestHandler_res res_json rt a evs of
        None \<Rightarrow> None
      | Some (thrown, s, rest) \<Rightarrow> Some (thrown, effects (foldl (\<lambda>s e. fire rt e s) s rest)))"

subsection \<open>Concrete inputs\<close>

text \<open>
  A runtime and a request used where a statement is evaluated at a concrete input. The
  runtime's \<open>JSON.parse\<close> stands for the real one on the two texts used below: it parses
  \<open>1\<close> and rejects the empty text.
\<close>

definition example_runtime :: "string option \<Rightarrow> runtime" where
  "example_runtime node_env =
     \<lparr>NODE_ENV = node_env,
      captureStack = (\<lambda>m. Some (''Error: '' @ m)),
      JSON_parse = (\<lambda>s. if s = ''1'' then Some (JNum 1) else None),
      TypeError_message = ''Cannot read property input of undefined'',
      destroyError = (\<lambda>r. \<lparr>instance_of = Error_class, statusCode = None,
                           message = Some ''destroyed'', stack = Some ''at destroy''\<rparr>)\<rparr>"

definition example_args :: "string \<Rightarrow> unit RequestHandlerArgs" where
  "example_args m =
     \<lparr>req = \<lparr>http_method = Some m, query = [], body = JObj []\<rparr>,
      res_statusCode = None,
      router_invoke = (\<lambda>target inp ctx path. Inr (JStr ''result'')),
      endpoint_path = ''todos/list'',
      subscriptions = Some \<lparr>timeout = Some 50\<rparr>,
      createContext = (\<lambda>rq. Inr ()),
      teardown = None,
      transformer = None\<rparr>"

definition plain_error :: "string \<Rightarrow> js_error" where
  "plain_error m = \<lparr>instance_of = Error_class, statusCode = None, message = Some m,
                    stack = Some ''at resolver''\<rparr>"

text \<open>The effects that write a response or belong to the teardown step.\<close>

fun reply_or_teardown :: "effect \<Rightarrow> bool" where
  "reply_or_teardown (ResJson json) = True"
| "reply_or_teardown TeardownCall = True"
| "reply_or_teardown (ConsoleError err) = True"
| "reply_or_teardown x = False"

definition malformed_query_request :: BaseRequest where
  "malformed_query_request =
     \<lparr>http_method = Some ''GET'', query = [(''input'', JStr ''{oops'')], body = JUndefined\<rparr>"


section \<open>Properties of the registry\<close>

lemma handler_endpoint:
  "handler (endpoint p f r) k = (if k = p then Some f else handler r k)"
  by (auto simp: handler_def endpoint_def DAList.lookup_update)

lemma handler_fold_hit:
  "key \<in> set ks \<Longrightarrow>
   handler (foldl (\<lambda>r key. endpoint (p @ ''/'' @ key) (g key) r) this ks) (p @ ''/'' @ key)
     = Some (g key)"
  by (induction ks arbitrary: this rule: rev_induct) (auto simp: handler_endpoint)

lemma Object_keys_lookup:
  assumes "handler A q = Some f"
  shows "q \<in> set (Object_keys (endpoints A))"
proof -
  from assms have "map_of (DAList.impl_of (endpoints A)) q = Some f"
    by (simp add: handler_def DAList.lookup.rep_eq)
  then have "(q, f) \<in> set (DAList.impl_of (endpoints A))"
    by (rule map_of_SomeD)
  then have "fst (q, f) \<in> fst ` set (DAList.impl_of (endpoints A))"
    by (rule imageI)
  then show ?thesis
    by (simp add: Object_keys_def)
qed

lemma handler_compose_hit:
  assumes "handler A q = Some f"
  shows "handler (compose p A P) (p @ ''/'' @ q) = Some f"
proof -
  let ?g = "\<lambda>key. the (DAList.lookup (endpoints A) key)"
  have "q \<in> set (Object_keys (endpoints A))"
    using assms by (rule Object_keys_lookup)
  then have "handler (compose p A P) (p @ ''/'' @ q) = Some (?g q)"
    unfolding compose_def by (rule handler_fold_hit)
  with assms show ?thesis
    by (simp add: handler_def)
qed

lemma update_fresh: "k \<notin> fst ` set al \<Longrightarrow> AList.update k v al = al @ [(k, v)]"
  by (induction al) auto

lemma impl_of_fold_fresh:
  "distinct ks \<Longrightarrow>
   DAList.impl_of (endpoints (foldl (\<lambda>r key. endpoint (p @ ''/'' @ key) (g key) r) new_Router ks))
     = map (\<lambda>key. (p @ ''/'' @ key, g key)) ks"
proof (induction ks rule: rev_induct)
  case Nil
  then show ?case by (simp add: new_Router_def DAList.empty.rep_eq)
next
  case (snoc x xs)
  then have fresh: "p @ ''/'' @ x \<notin> fst ` set (map (\<lambda>key. (p @ ''/'' @ key, g key)) xs)"
    by auto
  from snoc fresh show ?case
    by (simp add: endpoint_def DAList.update.rep_eq update_fresh)
qed

lemma distinct_Object_keys: "distinct (Object_keys obj)"
  by (simp add: Object_keys_def)

lemma Object_keys_compose_new:
  "Object_keys (endpoints (compose p A new_Router)) = map (\<lambda>key. p @ ''/'' @ key) (Object_keys (endpoints A))"
proof -
  let ?g = "\<lambda>key. the (DAList.lookup (endpoints A) key)"
  have "DAList.impl_of (endpoints (compose p A new_Router))
          = map (\<lambda>key. (p @ ''/'' @ key, ?g key)) (Object_keys (endpoints A))"
    unfolding compose_def by (rule impl_of_fold_fresh) (rule distinct_Object_keys)
  then show ?thesis
    by (simp add: Object_keys_def[of "endpoints (compose p A new_Router)"] comp_def)
qed

lemma compose_assoc:
  "compose p2 (compose p1 A new_Router) P = compose (p2 @ ''/'' @ p1) A P"
proof -
  let ?g = "\<lambda>key. the (DAList.lookup (endpoints A) key)"
  let ?B = "compose p1 A new_Router"
  have val: "the (DAList.lookup (endpoints ?B) (p1 @ ''/'' @ key)) = ?g key"
    if "key \<in> set (Object_keys (endpoints A))" for key
    using handler_fold_hit[OF that, of p1 ?g new_Router]
    by (simp add: compose_def handler_def)
  show ?thesis
    unfolding compose_def[of p2 ?B P] Object_keys_compose_new foldl_map
    unfolding compose_def[of "p2 @ ''/'' @ p1" A P]
    using val by (intro foldl_cong) simp_all
qed

lemmas router_eval = handler_def compose_def Object_keys_def endpoint_def new_Router_def
  DAList.update.rep_eq DAList.empty.rep_eq DAList.lookup.rep_eq

text \<open>
  Claim C4. For every registry \<open>A\<close>, prefix \<open>p\<close> and path \<open>q\<close> registered in \<open>A\<close>,
  composing \<open>A\<close> under \<open>p\<close> (into any parent \<open>P\<close>) gives a registry that resolves \<open>p/q\<close>
  to the procedure \<open>A\<close> holds at \<open>q\<close>. Composition is associative: composing \<open>A\<close> under
  \<open>p1\<close> and the result under \<open>p2\<close> is the same registry (same keys, in the same order,
  with the same procedures) as composing \<open>A\<close> under \<open>p2/p1\<close> directly. \<open>A\<close> is
  arbitrary, so it may itself be the result of compositions, to any depth.
\<close>

theorem compose_prefix_lookup_assoc:
  "(handler A q = Some f \<longrightarrow> handler (compose p A P) (p @ ''/'' @ q) = Some f)
   \<and> compose p2 (compose p1 A new_Router) P = compose (p2 @ ''/'' @ p1) A P"
proof (intro conjI impI)
  assume "handler A q = Some f"
  then show "handler (compose p A P) (p @ ''/'' @ q) = Some f"
    by (rule handler_compose_hit)
next
  show "compose p2 (compose p1 A new_Router) P = compose (p2 @ ''/'' @ p1) A P"
    by (rule compose_assoc)
qed

theorem compose_prefix_lookup_assoc_witness:
  "handler (endpoint ''list'' (1::nat) new_Router) ''list'' = Some 1
   \<and> handler (compose ''todos'' (endpoint ''list'' (1::nat) new_Router) (endpoint ''ping'' 2 new_Router))
        ''todos/list'' = Some 1
   \<and> compose ''api'' (compose ''todos'' (endpoint ''list'' (1::nat) new_Router) new_Router)
        (endpoint ''ping'' 2 new_Router)
      = compose ''api/todos'' (endpoint ''list'' (1::nat) new_Router) (endpoint ''ping'' 2 new_Router)"
proof -
  have h: "handler (endpoint ''list'' (1::nat) new_Router) ''list'' = Some 1"
    by (simp add: handler_endpoint)
  show ?thesis
    using h compose_prefix_lookup_assoc [of "endpoint ''list'' (1::nat) new_Router" "''list''" 1
        "''todos''" "endpoint ''ping'' 2 new_Router" "''api''" "''todos''"]
    by simp
qed

text \<open>
  Claim C9, as stated: registering a procedure under the empty path fails. The code has
  no check of the path: \<open>endpoint\<close> with the empty string returns a registry that holds
  the procedure at the empty path.
\<close>

theorem endpoint_empty_path_counterexample:
  "handler (endpoint '''' (7::nat) new_Router) '''' = Some 7
   \<and> Object_keys (endpoints (endpoint '''' (7::nat) new_Router)) = ['''']"
  by (simp add: router_eval)

text \<open>
  Claim C9, amended: for every procedure and every registry, registering the procedure
  under the empty path succeeds, and the resulting registry resolves the empty path to
  that procedure and has the empty path among its keys.
\<close>

theorem endpoint_empty_path_registered:
  "handler (endpoint '''' f r) '''' = Some f
   \<and> has '''' (endpoint '''' f r)
   \<and> '''' \<in> set (Object_keys (endpoints (endpoint '''' f r)))"
proof -
  have "handler (endpoint '''' f r) '''' = Some f"
    by (simp add: handler_endpoint)
  then show ?thesis
    by (simp add: has_def Object_keys_lookup)
qed

text \<open>
  Claim C10. Duplicate registration is last-write-wins and never rejects: registering
  \<open>f\<close> at \<open>p\<close> and then \<open>g\<close> at \<open>p\<close> gives a registry whose lookup at \<open>p\<close> is \<open>g\<close>; and
  composing, under a prefix \<open>pre\<close>, a child that holds \<open>g\<close> at \<open>q\<close> into a parent that
  already holds \<open>f\<close> at \<open>pre/q\<close> gives a registry whose lookup at \<open>pre/q\<close> is \<open>g\<close>. Both
  operations are total functions to registries: there is no error result.
\<close>

theorem duplicate_registration_last_wins:
  "handler (endpoint p g (endpoint p f r)) p = Some g
   \<and> (handler child q = Some g \<longrightarrow>
        handler (compose pre child (endpoint (pre @ ''/'' @ q) f r)) (pre @ ''/'' @ q) = Some g)"
proof (intro conjI impI)
  show "handler (endpoint p g (endpoint p f r)) p = Some g"
    by (simp add: handler_endpoint)
next
  assume "handler child q = Some g"
  then show "handler (compose pre child (endpoint (pre @ ''/'' @ q) f r)) (pre @ ''/'' @ q) = Some g"
    by (rule handler_compose_hit)
qed

theorem duplicate_registration_last_wins_witness:
  "handler (endpoint ''x'' (2::nat) new_Router) ''x'' = Some 2
   \<and> handler (endpoint ''a/x'' (2::nat) (endpoint ''a/x'' 1 new_Router)) ''a/x'' = Some 2
   \<and> handler (compose ''a'' (endpoint ''x'' (2::nat) new_Router) (endpoint ''a/x'' 1 new_Router))
        ''a/x'' = Some 2"
proof -
  have h: "handler (endpoint ''x'' (2::nat) new_Router) ''x'' = Some 2"
    by (simp add: handler_endpoint)
  show ?thesis
    using h duplicate_registration_last_wins [of "''a/x''" 2 1 new_Router
        "endpoint ''x'' (2::nat) new_Router" "''x''" "''a''"]
    by simp
qed


section \<open>Properties of the error envelope\<close>

lemma getErrorResponseEnvelope_not_ok: "\<not> ok (getErrorResponseEnvelope rt thrown)"
  by (simp add: getErrorResponseEnvelope_def Let_def)

lemma getErrorResponseEnvelope_validation:
  assumes "instance_of e = InputValidationError_class"
  shows "env_statusCode (getErrorResponseEnvelope rt (Some e)) = 400"
    and "error_message (getErrorResponseEnvelope rt (Some e))
          = (case message e of None \<Rightarrow> ''Bad Request'' | Some m \<Rightarrow> m)"
  using assms
  by (simp_all add: getErrorResponseEnvelope_def Let_def httpError_badRequest_def HTTPError_def)

lemma getErrorResponseEnvelope_not_found:
  assumes "instance_of e = RouteNotFoundError_class"
  shows "env_statusCode (getErrorResponseEnvelope rt (Some e)) = 404"
    and "error_message (getErrorResponseEnvelope rt (Some e))
          = (case message e of None \<Rightarrow> ''Not found'' | Some m \<Rightarrow> m)"
  using assms
  by (simp_all add: getErrorResponseEnvelope_def Let_def httpError_notFound_def HTTPError_def)

lemma getErrorResponseEnvelope_HTTPError:
  "getErrorResponseEnvelope rt (Some (HTTPError rtd c m))
     = HTTPErrorResponseEnvelope c m
         (if NODE_ENV rt \<noteq> Some ''production'' then captureStack rtd m else None)"
  by (simp add: getErrorResponseEnvelope_def Let_def HTTPError_def)

lemma getErrorResponseEnvelope_other:
  assumes "instance_of e \<noteq> InputValidationError_class"
    and "instance_of e \<noteq> RouteNotFoundError_class"
  shows "getErrorResponseEnvelope rt (Some e)
     = HTTPErrorResponseEnvelope
         (case statusCode e of Some n \<Rightarrow> n | None \<Rightarrow> 500)
         (case message e of Some m \<Rightarrow> m | None \<Rightarrow> ''Internal Server Error'')
         (if NODE_ENV rt \<noteq> Some ''production'' then stack e else None)"
  using assms by (simp add: getErrorResponseEnvelope_def Let_def)

lemma getErrorResponseEnvelope_undefined:
  "getErrorResponseEnvelope rt None = HTTPErrorResponseEnvelope 500 ''Internal Server Error'' None"
  by (simp add: getErrorResponseEnvelope_def Let_def)

lemma getErrorResponseEnvelope_production_stack:
  assumes "NODE_ENV rt = Some ''production''"
  shows "error_stack (getErrorResponseEnvelope rt thrown) = None"
  using assms by (simp add: getErrorResponseEnvelope_def Let_def)

lemma getErrorResponseEnvelope_production_stack_blind:
  assumes "NODE_ENV rt = Some ''production''"
  shows "getErrorResponseEnvelope rt (Some (e\<lparr>stack := sa\<rparr>))
       = getErrorResponseEnvelope rt (Some (e\<lparr>stack := sb\<rparr>))"
  using assms by (simp add: getErrorResponseEnvelope_def Let_def)

lemma getErrorResponseEnvelope_message_any_env:
  "error_message (getErrorResponseEnvelope (rt\<lparr>NODE_ENV := x\<rparr>) thrown)
     = error_message (getErrorResponseEnvelope rt thrown)"
  by (simp add: getErrorResponseEnvelope_def Let_def httpError_badRequest_def
      httpError_notFound_def HTTPError_def split: option.splits)

text \<open>
  Claim C6, as stated: any failure other than an input-validation failure, a
  route-not-found failure or a structured HTTP error gets statusCode 500 with the message
  \<open>Internal Server Error\<close>. A plain error that carries a string message and no statusCode
  gets statusCode 500 but keeps its own message, and a plain error that carries a numeric
  statusCode keeps that statusCode.
\<close>

theorem error_envelope_defaults_counterexample:
  "getErrorResponseEnvelope (example_runtime (Some ''production'')) (Some (plain_error ''boom''))
     = HTTPErrorResponseEnvelope 500 ''boom'' None
   \<and> error_message (getErrorResponseEnvelope (example_runtime (Some ''production''))
        (Some (plain_error ''boom''))) \<noteq> ''Internal Server Error''
   \<and> instance_of (plain_error ''teapot''\<lparr>statusCode := Some 418\<rparr>) = Error_class
   \<and> getErrorResponseEnvelope (example_runtime (Some ''production''))
        (Some (plain_error ''teapot''\<lparr>statusCode := Some 418\<rparr>))
     = HTTPErrorResponseEnvelope 418 ''teapot'' None"
  by (simp add: getErrorResponseEnvelope_def Let_def example_runtime_def plain_error_def)

text \<open>
  Claim C6, amended. For every failure value handed to \<open>getErrorResponseEnvelope\<close> the
  result is an envelope with \<open>ok: false\<close>, and the function has no failing branch. An
  input-validation failure maps to statusCode 400 (with its own message, or \<open>Bad Request\<close>
  when it has none), a route-not-found failure to 404 (its own message, or \<open>Not found\<close>),
  and a structured HTTP error keeps its own statusCode and message. For any other
  failure the two fields default independently: the statusCode is the failureds own when
  it is a number and 500 otherwise; the message is the failureds own when it is a string
  and \<open>Internal Server Error\<close> otherwise. An undefined failure gives 500 and
  \<open>Internal Server Error\<close>.
\<close>

theorem error_envelope_taxonomy:
  "\<not> ok (getErrorResponseEnvelope rt thrown)
   \<and> (instance_of v = InputValidationError_class \<longrightarrow>
        env_statusCode (getErrorResponseEnvelope rt (Some v)) = 400
        \<and> error_message (getErrorResponseEnvelope rt (Some v))
            = (case message v of None \<Rightarrow> ''Bad Request'' | Some m \<Rightarrow> m))
   \<and> (instance_of n = RouteNotFoundError_class \<longrightarrow>
        env_statusCode (getErrorResponseEnvelope rt (Some n)) = 404
        \<and> error_message (getErrorResponseEnvelope rt (Some n))
            = (case message n of None \<Rightarrow> ''Not found'' | Some m \<Rightarrow> m))
   \<and> env_statusCode (getErrorResponseEnvelope rt (Some (HTTPError rt c m))) = c
   \<and> error_message (getErrorResponseEnvelope rt (Some (HTTPError rt c m))) = m
   \<and> (instance_of e \<noteq> InputValidationError_class \<and> instance_of e \<noteq> RouteNotFoundError_class \<longrightarrow>
        env_statusCode (getErrorResponseEnvelope rt (Some e))
          = (case statusCode e of Some k \<Rightarrow> k | None \<Rightarrow> 500)
        \<and> error_message (getErrorResponseEnvelope rt (Some e))
          = (case message e of Some m \<Rightarrow> m | None \<Rightarrow> ''Internal Server Error''))
   \<and> getErrorResponseEnvelope rt None
        = HTTPErrorResponseEnvelope 500 ''Internal Server Error'' None"
  by (simp add: getErrorResponseEnvelope_not_ok getErrorResponseEnvelope_validation
      getErrorResponseEnvelope_not_found getErrorResponseEnvelope_HTTPError
      getErrorResponseEnvelope_other getErrorResponseEnvelope_undefined)

theorem error_envelope_taxonomy_witness:
  "instance_of (plain_error ''bad input''\<lparr>instance_of := InputValidationError_class\<rparr>)
      = InputValidationError_class
   \<and> instance_of (plain_error ''no such route''\<lparr>instance_of := RouteNotFoundError_class\<rparr>)
      = RouteNotFoundError_class
   \<and> instance_of (plain_error ''boom''\<lparr>message := None\<rparr>) \<noteq> InputValidationError_class
   \<and> instance_of (plain_error ''boom''\<lparr>message := None\<rparr>) \<noteq> RouteNotFoundError_class
   \<and> env_statusCode (getErrorResponseEnvelope (example_runtime None)
        (Some (plain_error ''bad input''\<lparr>instance_of := InputValidationError_class\<rparr>))) = 400
   \<and> error_message (getErrorResponseEnvelope (example_runtime None)
        (Some (plain_error ''bad input''\<lparr>instance_of := InputValidationError_class\<rparr>))) = ''bad input''
   \<and> env_statusCode (getErrorResponseEnvelope (example_runtime None)
        (Some (plain_error ''no such route''\<lparr>instance_of := RouteNotFoundError_class\<rparr>))) = 404
   \<and> env_statusCode (getErrorResponseEnvelope (example_runtime None)
        (Some (HTTPError (example_runtime None) 403 ''Forbidden''))) = 403
   \<and> error_message (getErrorResponseEnvelope (example_runtime None)
        (Some (HTTPError (example_runtime None) 403 ''Forbidden''))) = ''Forbidden''
   \<and> env_statusCode (getErrorResponseEnvelope (example_runtime None)
        (Some (plain_error ''boom''\<lparr>message := None\<rparr>))) = 500
   \<and> error_message (getErrorResponseEnvelope (example_runtime None)
        (Some (plain_error ''boom''\<lparr>message := None\<rparr>))) = ''Internal Server Error''"
  using error_envelope_taxonomy [where rt = "example_runtime None" and thrown = None
      and v = "plain_error ''bad input''\<lparr>instance_of := InputValidationError_class\<rparr>"
      and n = "plain_error ''no such route''\<lparr>instance_of := RouteNotFoundError_class\<rparr>"
      and c = 403 and m = "''Forbidden''" and e = "plain_error ''boom''\<lparr>message := None\<rparr>"]
  by (simp add: plain_error_def)

text \<open>
  Claim C7, as stated: under production configuration the message of the error envelope
  is normalised to a generic string, so that two failures differing only in their message
  give the same envelope. Under production configuration the envelope carries the
  failureds own message, and two failures that differ only in their message give
  different envelopes.
\<close>

theorem production_message_counterexample:
  "NODE_ENV (example_runtime (Some ''production'')) = Some ''production''
   \<and> error_message (getErrorResponseEnvelope (example_runtime (Some ''production''))
        (Some (plain_error ''relation users does not exist''))) = ''relation users does not exist''
   \<and> getErrorResponseEnvelope (example_runtime (Some ''production''))
        (Some (plain_error ''relation users does not exist''))
      \<noteq> getErrorResponseEnvelope (example_runtime (Some ''production''))
        (Some (plain_error ''boom''))"
  by (simp add: getErrorResponseEnvelope_def Let_def example_runtime_def plain_error_def)

lemma getErrorResponseEnvelope_message_own:
  assumes "message e = Some m"
  shows "error_message (getErrorResponseEnvelope rt (Some e)) = m"
  using assms
  by (simp add: getErrorResponseEnvelope_def Let_def httpError_badRequest_def
      httpError_notFound_def HTTPError_def)

lemma getErrorResponseEnvelope_message_default:
  assumes "message e = None"
  shows "error_message (getErrorResponseEnvelope rt (Some e))
     = (if instance_of e = InputValidationError_class then ''Bad Request''
        else if instance_of e = RouteNotFoundError_class then ''Not found''
        else ''Internal Server Error'')"
  using assms
  by (simp add: getErrorResponseEnvelope_def Let_def httpError_badRequest_def
      httpError_notFound_def HTTPError_def)

text \<open>
  Claim C7, amended. Under production configuration, for every failure, the stack is
  omitted from the error envelope, and two failures differing only in their stack give
  identical envelopes. The message is not normalised: under every configuration,
  production included, the envelope carries the failure's own message whenever the
  failure has a string message, and a fixed default text only when it has none
  (\<open>Bad Request\<close> for an input-validation failure, \<open>Not found\<close> for a route-not-found
  failure, \<open>Internal Server Error\<close> otherwise); the message is the same under every
  value of \<open>NODE_ENV\<close>. Outside production configuration the stack of the failure is
  exposed (for a failure that is neither an input-validation nor a route-not-found
  failure, which are rebuilt as HTTP errors).
\<close>

theorem production_hides_stack_only:
  "(NODE_ENV rt = Some ''production'' \<longrightarrow>
      error_stack (getErrorResponseEnvelope rt thrown) = None
      \<and> getErrorResponseEnvelope rt (Some (e\<lparr>stack := sa\<rparr>))
          = getErrorResponseEnvelope rt (Some (e\<lparr>stack := sb\<rparr>)))
   \<and> error_message (getErrorResponseEnvelope (rt\<lparr>NODE_ENV := x\<rparr>) thrown)
       = error_message (getErrorResponseEnvelope rt thrown)
   \<and> (NODE_ENV rtd \<noteq> Some ''production'' \<and> instance_of ed \<noteq> InputValidationError_class
        \<and> instance_of ed \<noteq> RouteNotFoundError_class \<longrightarrow>
      error_stack (getErrorResponseEnvelope rtd (Some ed)) = stack ed)
   \<and> (message em = Some m \<longrightarrow>
      error_message (getErrorResponseEnvelope rtm (Some em)) = m)
   \<and> (message en = None \<longrightarrow>
      error_message (getErrorResponseEnvelope rtm (Some en))
        = (if instance_of en = InputValidationError_class then ''Bad Request''
           else if instance_of en = RouteNotFoundError_class then ''Not found''
           else ''Internal Server Error''))"
proof (intro conjI impI)
  assume "NODE_ENV rt = Some ''production''"
  then show "error_stack (getErrorResponseEnvelope rt thrown) = None"
    by (rule getErrorResponseEnvelope_production_stack)
next
  assume "NODE_ENV rt = Some ''production''"
  then show "getErrorResponseEnvelope rt (Some (e\<lparr>stack := sa\<rparr>))
          = getErrorResponseEnvelope rt (Some (e\<lparr>stack := sb\<rparr>))"
    by (rule getErrorResponseEnvelope_production_stack_blind)
next
  show "error_message (getErrorResponseEnvelope (rt\<lparr>NODE_ENV := x\<rparr>) thrown)
       = error_message (getErrorResponseEnvelope rt thrown)"
    by (rule getErrorResponseEnvelope_message_any_env)
next
  assume "NODE_ENV rtd \<noteq> Some ''production'' \<and> instance_of ed \<noteq> InputValidationError_class
        \<and> instance_of ed \<noteq> RouteNotFoundError_class"
  then show "error_stack (getErrorResponseEnvelope rtd (Some ed)) = stack ed"
    by (simp add: getErrorResponseEnvelope_other)
next
  assume "message em = Some m"
  then show "error_message (getErrorResponseEnvelope rtm (Some em)) = m"
    by (rule getErrorResponseEnvelope_message_own)
next
  assume "message en = None"
  then show "error_message (getErrorResponseEnvelope rtm (Some en))
        = (if instance_of en = InputValidationError_class then ''Bad Request''
           else if instance_of en = RouteNotFoundError_class then ''Not found''
           else ''Internal Server Error'')"
    by (rule getErrorResponseEnvelope_message_default)
qed

theorem production_hides_stack_only_witness:
  "NODE_ENV (example_runtime (Some ''production'')) = Some ''production''
   \<and> NODE_ENV (example_runtime (Some ''development'')) \<noteq> Some ''production''
   \<and> instance_of (plain_error ''boom'') \<noteq> InputValidationError_class
   \<and> instance_of (plain_error ''boom'') \<noteq> RouteNotFoundError_class
   \<and> message (plain_error ''relation users does not exist'') = Some ''relation users does not exist''
   \<and> message (plain_error ''boom''\<lparr>message := None\<rparr>) = None
   \<and> error_stack (getErrorResponseEnvelope (example_runtime (Some ''production''))
        (Some (plain_error ''boom''))) = None
   \<and> getErrorResponseEnvelope (example_runtime (Some ''production''))
        (Some (plain_error ''boom''\<lparr>stack := Some ''at a''\<rparr>))
      = getErrorResponseEnvelope (example_runtime (Some ''production''))
        (Some (plain_error ''boom''\<lparr>stack := None\<rparr>))
   \<and> error_stack (getErrorResponseEnvelope (example_runtime (Some ''development''))
        (Some (plain_error ''boom''))) = Some ''at resolver''
   \<and> error_message (getErrorResponseEnvelope (example_runtime (Some ''production''))
        (Some (plain_error ''relation users does not exist''))) = ''relation users does not exist''
   \<and> error_message (getErrorResponseEnvelope (example_runtime (Some ''production''))
        (Some (plain_error ''boom''\<lparr>message := None\<rparr>))) = ''Internal Server Error''"
proof -
  have h: "message (plain_error ''relation users does not exist'') = Some ''relation users does not exist''"
    "message (plain_error ''boom''\<lparr>message := None\<rparr>) = None"
    "instance_of (plain_error ''boom''\<lparr>message := None\<rparr>) = Error_class"
    by (simp_all add: plain_error_def)
  show ?thesis
    using h production_hides_stack_only [where rt = "example_runtime (Some ''production'')"
        and thrown = "Some (plain_error ''boom'')" and e = "plain_error ''boom''"
        and sa = "Some ''at a''" and sb = None and x = "Some ''production''"
        and rtd = "example_runtime (Some ''development'')" and ed = "plain_error ''boom''"
        and rtm = "example_runtime (Some ''production'')"
        and em = "plain_error ''relation users does not exist''"
        and m = "''relation users does not exist''"
        and en = "plain_error ''boom''\<lparr>message := None\<rparr>"]
    by (simp add: example_runtime_def plain_error_def)
qed

section \<open>Properties of the subscription branch\<close>

lemma instance_of_SubscriptionDestroyError:
  "instance_of (SubscriptionDestroyError rt reason) = SubscriptionDestroyError_class reason"
  by (simp add: SubscriptionDestroyError_def)

lemma fire_idle:
  assumes "\<not> closeListener s" and "\<not> timerPending s"
  shows "effects (fire rt e s) = effects s"
    and "\<not> closeListener (fire rt e s)"
    and "\<not> timerPending (fire rt e s)"
  using assms by (cases e; simp split: option.splits)+

lemma drain_idle:
  "\<not> closeListener s \<Longrightarrow> \<not> timerPending s \<Longrightarrow>
   effects (foldl (\<lambda>s e. fire rt e s) s es) = effects s"
  by (induction es arbitrary: s) (simp_all add: fire_idle)

lemma requestHandler_try_subscription:
  assumes "createContext a (req a) = Inr ctx"
    and "http_method (req a) = Some ''PATCH''"
    and "body_input rt (body (req a)) = Inr raw"
    and "deserializeInput (the_transformer a) raw = Inr inp"
    and "router_invoke a Subscriptions inp ctx (endpoint_path a) = Inr sub"
  shows "requestHandler_try rt a evs
     = await_subscription rt (subscription_timeout a)
         (emit (RouterInvoke Subscriptions inp (endpoint_path a)) initial_state) evs"
  using assms
  by (simp add: requestHandler_try_def request_method_def patch_branch_def invoke_def)

lemma await_subscription_timer_first:
  "await_subscription rt ms (emit x initial_state) (TimerElapsed # es)
     = Some (Inl (HTTPError rt 408
               (''Subscription exceeded '' @ Number_toString ms @ ''ms - please reconnect.'')),
             \<lparr>closeListener = False, timerPending = False,
              subOutcome = Some (Inl (SubscriptionDestroyError rt Timeout)),
              effects = [x, ResOnceClose, SetTimeout ms, SubDestroy Timeout, ResOffClose, ClearTimeout]\<rparr>,
             es)"
  by (cases es)
    (simp_all add: await_subscription_def emit_def initial_state_def res_once_close_def
      setTimeout_def sub_destroy_def res_off_close_def clearTimeout_def
      instance_of_SubscriptionDestroyError)

lemma await_subscription_close_first:
  "await_subscription rt ms (emit x initial_state) (ResClose # es)
     = Some (Inl (SubscriptionDestroyError rt Closed),
             \<lparr>closeListener = False, timerPending = False,
              subOutcome = Some (Inl (SubscriptionDestroyError rt Closed)),
              effects = [x, ResOnceClose, SetTimeout ms, SubDestroy Closed, ResOffClose, ClearTimeout]\<rparr>,
             es)"
  by (cases es)
    (simp_all add: await_subscription_def emit_def initial_state_def res_once_close_def
      setTimeout_def sub_destroy_def res_off_close_def clearTimeout_def
      instance_of_SubscriptionDestroyError)

lemma await_subscription_output_first:
  "await_subscription rt ms (emit x initial_state) (SubOutput v # es)
     = Some (Inr v,
             \<lparr>closeListener = False, timerPending = True,
              subOutcome = Some (Inr v),
              effects = [x, ResOnceClose, SetTimeout ms, ResOffClose]\<rparr>,
             es)"
  by (cases es)
    (simp_all add: await_subscription_def emit_def initial_state_def res_once_close_def
      setTimeout_def res_off_close_def)

lemmas handler_eval = observed_def requestHandler_def requestHandler_try_def patch_branch_def
  get_branch_def post_branch_def await_subscription_def invoke_def response_json_def
  request_method_def subscription_timeout_def the_transformer_def deserializeInput_def
  getQueryInput_def query_input_def getErrorResponseEnvelope_def HTTPError_def
  httpError_badRequest_def httpError_notFound_def TypeError_def
  emit_def res_once_close_def res_off_close_def setTimeout_def clearTimeout_def
  sub_destroy_def SubscriptionDestroyError_def initial_state_def Let_def
  example_runtime_def example_args_def plain_error_def

text \<open>
  Claim C1: the deadline timer is cancelled on every exit path, the success path
  included, so that no timeout side effect fires after the handle has produced its
  output. Evaluated on a subscription whose handle produces its output before the
  deadline: the handler removes the close listener, replies with the success envelope and
  returns with the timer still pending (\<open>clearTimeout\<close> is called in the \<open>catch\<close> branch
  only); when the deadline elapses, the timer's callback calls \<open>sub.destroy('timeout')\<close>.
\<close>

theorem success_path_leaves_timer_pending:
  "map_option (timerPending \<circ> fst)
     (requestHandler (example_runtime None) (example_args ''PATCH'') [SubOutput (JStr ''tick''), TimerElapsed])
     = Some True
   \<and> observed (example_runtime None) (example_args ''PATCH'') [SubOutput (JStr ''tick''), TimerElapsed]
     = Some [RouterInvoke Subscriptions JUndefined ''todos/list'', ResOnceClose, SetTimeout 50,
             ResOffClose, ResJson (HTTPSuccessResponseEnvelope 200 (JStr ''tick'')),
             SubDestroy Timeout]"
  by (simp add: handler_eval)

text \<open>
  Claim C2, as stated: when the client disconnects first, no response envelope is
  emitted. Evaluated on a subscription whose response closes before any output: the
  handle is destroyed with reason \<open>closed\<close>, its wait rejects, and the handler's
  \<open>catch\<close> writes a failure envelope built from that rejection.
\<close>

theorem disconnect_emits_envelope_counterexample:
  "observed (example_runtime (Some ''production'')) (example_args ''PATCH'') [ResClose]
     = Some [RouterInvoke Subscriptions JUndefined ''todos/list'', ResOnceClose, SetTimeout 50,
             SubDestroy Closed, ResOffClose, ClearTimeout,
             ResJson (HTTPErrorResponseEnvelope 500 ''destroyed'' None)]"
  by (simp add: handler_eval)

text \<open>
  Claim C2, amended. For every subscription dispatch in which the client-disconnect
  signal fires before the handle produces output and before the deadline elapses, the
  handle is told to terminate with reason \<open>closed\<close>, once; the close listener and the
  timer are then deregistered; and the rejection of the handle's wait is treated like any
  other failure: the failure envelope that \<open>getErrorResponseEnvelope\<close> builds from it
  (\<open>ok: false\<close>) is written to the response, followed by the teardown step. Later
  signals have no effect.
\<close>

theorem disconnect_destroys_closed_and_replies_failure:
  assumes "createContext a (req a) = Inr ctx"
    and "http_method (req a) = Some ''PATCH''"
    and "body_input rt (body (req a)) = Inr raw"
    and "deserializeInput (the_transformer a) raw = Inr inp"
    and "router_invoke a Subscriptions inp ctx (endpoint_path a) = Inr sub"
  shows "observed rt a (ResClose # es)
     = Some ([RouterInvoke Subscriptions inp (endpoint_path a), ResOnceClose,
              SetTimeout (subscription_timeout a), SubDestroy Closed, ResOffClose, ClearTimeout,
              ResJson (getErrorResponseEnvelope rt (Some (SubscriptionDestroyError rt Closed)))]
             @ teardown_effects (teardown a))
   \<and> \<not> ok (getErrorResponseEnvelope rt (Some (SubscriptionDestroyError rt Closed)))"
proof -
  have "requestHandler_try rt a (ResClose # es)
     = Some (Inl (SubscriptionDestroyError rt Closed),
             \<lparr>closeListener = False, timerPending = False,
              subOutcome = Some (Inl (SubscriptionDestroyError rt Closed)),
              effects = [RouterInvoke Subscriptions inp (endpoint_path a), ResOnceClose,
                SetTimeout (subscription_timeout a), SubDestroy Closed, ResOffClose, ClearTimeout]\<rparr>,
             es)"
    by (simp only: requestHandler_try_subscription [OF assms] await_subscription_close_first)
  then show ?thesis
    by (simp add: observed_def requestHandler_def response_json_def emit_def drain_idle
        getErrorResponseEnvelope_not_ok)
qed

theorem disconnect_destroys_closed_and_replies_failure_witness:
  "createContext (example_args ''PATCH'') (req (example_args ''PATCH'')) = Inr ()
   \<and> http_method (req (example_args ''PATCH'')) = Some ''PATCH''
   \<and> body_input (example_runtime None) (body (req (example_args ''PATCH''))) = Inr JUndefined
   \<and> deserializeInput (the_transformer (example_args ''PATCH'')) JUndefined = Inr JUndefined
   \<and> router_invoke (example_args ''PATCH'') Subscriptions JUndefined () (endpoint_path (example_args ''PATCH''))
       = Inr (JStr ''result'')
   \<and> observed (example_runtime None) (example_args ''PATCH'') [ResClose, TimerElapsed]
       = Some [RouterInvoke Subscriptions JUndefined ''todos/list'', ResOnceClose, SetTimeout 50,
               SubDestroy Closed, ResOffClose, ClearTimeout,
               ResJson (HTTPErrorResponseEnvelope 500 ''destroyed'' (Some ''at destroy''))]"
proof -
  have h1: "createContext (example_args ''PATCH'') (req (example_args ''PATCH'')) = Inr ()"
    and h2: "http_method (req (example_args ''PATCH'')) = Some ''PATCH''"
    and h3: "body_input (example_runtime None) (body (req (example_args ''PATCH''))) = Inr JUndefined"
    and h4: "deserializeInput (the_transformer (example_args ''PATCH'')) JUndefined = Inr JUndefined"
    and h5: "router_invoke (example_args ''PATCH'') Subscriptions JUndefined ()
               (endpoint_path (example_args ''PATCH'')) = Inr (JStr ''result'')"
    by (simp_all add: example_args_def deserializeInput_def)
  show ?thesis
    using h1 h2 h3 h4 h5
      disconnect_destroys_closed_and_replies_failure [OF h1 h2 h3 h4 h5, of "[TimerElapsed]"]
    by (simp add: subscription_timeout_def example_args_def example_runtime_def
        getErrorResponseEnvelope_def SubscriptionDestroyError_def Let_def)
qed

text \<open>
  Claim C3. For every subscription dispatch in which the deadline elapses first, the
  timer's callback tells the handle to terminate with reason \<open>timeout\<close>, once, the wait
  rejects with that reason, and the envelope written to the response is a failure with
  statusCode 408 and the message \<open>Subscription exceeded <N>ms - please reconnect.\<close>,
  where \<open>N\<close> is the configured \<open>subscriptions.timeout\<close>, or 9000 when none is configured
  (\<open>subscription_timeout\<close>), in decimal digits. The timeout is a natural number of
  milliseconds in the range of safe integers. Later signals have no effect.
\<close>

theorem timeout_replies_408:
  assumes "createContext a (req a) = Inr ctx"
    and "http_method (req a) = Some ''PATCH''"
    and "body_input rt (body (req a)) = Inr raw"
    and "deserializeInput (the_transformer a) raw = Inr inp"
    and "router_invoke a Subscriptions inp ctx (endpoint_path a) = Inr sub"
    and "subscription_timeout a \<le> 9007199254740991"
  shows "observed rt a (TimerElapsed # es)
     = Some ([RouterInvoke Subscriptions inp (endpoint_path a), ResOnceClose,
              SetTimeout (subscription_timeout a), SubDestroy Timeout, ResOffClose, ClearTimeout,
              ResJson (HTTPErrorResponseEnvelope 408
                (''Subscription exceeded '' @ Number_toString (subscription_timeout a)
                   @ ''ms - please reconnect.'')
                (if NODE_ENV rt \<noteq> Some ''production''
                 then captureStack rt (''Subscription exceeded ''
                        @ Number_toString (subscription_timeout a) @ ''ms - please reconnect.'')
                 else None))]
             @ teardown_effects (teardown a))
   \<and> subscription_timeout a
       = (case subscriptions a of None \<Rightarrow> 9000
          | Some opts \<Rightarrow> (case timeout opts of None \<Rightarrow> 9000 | Some ms \<Rightarrow> ms))"
proof -
  let ?msg = "''Subscription exceeded '' @ Number_toString (subscription_timeout a)
                @ ''ms - please reconnect.''"
  have "requestHandler_try rt a (TimerElapsed # es)
     = Some (Inl (HTTPError rt 408 ?msg),
             \<lparr>closeListener = False, timerPending = False,
              subOutcome = Some (Inl (SubscriptionDestroyError rt Timeout)),
              effects = [RouterInvoke Subscriptions inp (endpoint_path a), ResOnceClose,
                SetTimeout (subscription_timeout a), SubDestroy Timeout, ResOffClose, ClearTimeout]\<rparr>,
             es)"
    by (simp only: requestHandler_try_subscription [OF assms(1-5)] await_subscription_timer_first)
  then have "observed rt a (TimerElapsed # es)
     = Some ([RouterInvoke Subscriptions inp (endpoint_path a), ResOnceClose,
              SetTimeout (subscription_timeout a), SubDestroy Timeout, ResOffClose, ClearTimeout,
              ResJson (getErrorResponseEnvelope rt (Some (HTTPError rt 408 ?msg)))]
             @ teardown_effects (teardown a))"
    by (simp add: observed_def requestHandler_def response_json_def emit_def drain_idle)
  then show ?thesis
    by (simp only: getErrorResponseEnvelope_HTTPError subscription_timeout_def simp_thms)
qed

theorem timeout_replies_408_witness:
  "createContext (example_args ''PATCH'') (req (example_args ''PATCH'')) = Inr ()
   \<and> http_method (req (example_args ''PATCH'')) = Some ''PATCH''
   \<and> body_input (example_runtime (Some ''production'')) (body (req (example_args ''PATCH''))) = Inr JUndefined
   \<and> deserializeInput (the_transformer (example_args ''PATCH'')) JUndefined = Inr JUndefined
   \<and> router_invoke (example_args ''PATCH'') Subscriptions JUndefined () (endpoint_path (example_args ''PATCH''))
       = Inr (JStr ''result'')
   \<and> subscription_timeout (example_args ''PATCH'') \<le> 9007199254740991
   \<and> observed (example_runtime (Some ''production'')) (example_args ''PATCH'') [TimerElapsed, ResClose]
       = Some [RouterInvoke Subscriptions JUndefined ''todos/list'', ResOnceClose, SetTimeout 50,
               SubDestroy Timeout, ResOffClose, ClearTimeout,
               ResJson (HTTPErrorResponseEnvelope 408
                  ''Subscription exceeded 50ms - please reconnect.'' None)]"
proof -
  have h1: "createContext (example_args ''PATCH'') (req (example_args ''PATCH'')) = Inr ()"
    and h2: "http_method (req (example_args ''PATCH'')) = Some ''PATCH''"
    and h3: "body_input (example_runtime (Some ''production'')) (body (req (example_args ''PATCH'')))
               = Inr JUndefined"
    and h4: "deserializeInput (the_transformer (example_args ''PATCH'')) JUndefined = Inr JUndefined"
    and h5: "router_invoke (example_args ''PATCH'') Subscriptions JUndefined ()
               (endpoint_path (example_args ''PATCH'')) = Inr (JStr ''result'')"
    by (simp_all add: example_args_def deserializeInput_def)
  have h6: "subscription_timeout (example_args ''PATCH'') \<le> 9007199254740991"
    by (simp add: subscription_timeout_def example_args_def)
  have n: "Number_toString 50 = ''50''"
    by (simp add: Number_toString.simps)
  show ?thesis
    using h1 h2 h3 h4 h5 h6 n
      timeout_replies_408 [OF h1 h2 h3 h4 h5 h6, of "[ResClose]"]
    by (simp add: subscription_timeout_def example_args_def example_runtime_def)
qed

section \<open>The teardown step\<close>

lemma fire_filter:
  "filter reply_or_teardown (effects (fire rt e s)) = filter reply_or_teardown (effects s)"
  by (cases e) (simp_all add: sub_destroy_def emit_def split: option.splits)

lemma drain_filter:
  "filter reply_or_teardown (effects (foldl (\<lambda>s e. fire rt e s) s es))
     = filter reply_or_teardown (effects s)"
  by (induction es arbitrary: s) (simp_all add: fire_filter)

lemma onceOutputAndStop_filter:
  "onceOutputAndStop rt s evs = Some (r, s', rest) \<Longrightarrow>
   filter reply_or_teardown (effects s') = filter reply_or_teardown (effects s)"
  by (induction evs arbitrary: s) (auto simp: fire_filter split: option.splits)

lemma onceOutputAndStop_settled:
  "subOutcome s = Some r \<Longrightarrow> onceOutputAndStop rt s evs = Some (r, s, evs)"
  by (cases evs) simp_all

lemma fire_settles:
  assumes "closeListener s" and "timerPending s"
  shows "subOutcome (fire rt e s) \<noteq> None"
  using assms by (cases e) (simp_all add: sub_destroy_def emit_def split: option.splits)

lemma onceOutputAndStop_completes:
  assumes "closeListener s" and "timerPending s" and "evs \<noteq> []"
  shows "onceOutputAndStop rt s evs \<noteq> None"
proof (cases evs)
  case Nil
  with assms show ?thesis by simp
next
  case (Cons e es)
  show ?thesis
  proof (cases "subOutcome s")
    case None
    from fire_settles [OF assms(1,2)] obtain r where "subOutcome (fire rt e s) = Some r"
      by blast
    then have "onceOutputAndStop rt (fire rt e s) es = Some (r, fire rt e s, es)"
      by (rule onceOutputAndStop_settled)
    with None Cons show ?thesis by simp
  next
    case (Some r)
    with Cons show ?thesis by simp
  qed
qed

lemma await_subscription_filter:
  assumes "await_subscription rt ms s evs = Some (r, s', rest)"
  shows "filter reply_or_teardown (effects s') = filter reply_or_teardown (effects s)"
proof -
  let ?armed = "setTimeout ms (res_once_close s)"
  from assms obtain r0 s0 where once: "onceOutputAndStop rt ?armed evs = Some (r0, s0, rest)"
    and s': "s' = res_off_close s0 \<or> s' = clearTimeout (res_off_close s0)"
    by (auto simp: await_subscription_def Let_def split: option.splits sum.splits if_splits)
  have "filter reply_or_teardown (effects s0) = filter reply_or_teardown (effects ?armed)"
    using once by (rule onceOutputAndStop_filter)
  with s' show ?thesis
    by (auto simp: res_off_close_def clearTimeout_def setTimeout_def res_once_close_def emit_def)
qed

lemma await_subscription_completes:
  assumes "evs \<noteq> []"
  shows "await_subscription rt ms s evs \<noteq> None"
proof -
  have "onceOutputAndStop rt (setTimeout ms (res_once_close s)) evs \<noteq> None"
    using assms
    by (intro onceOutputAndStop_completes) (simp_all add: setTimeout_def res_once_close_def emit_def)
  then show ?thesis
    by (auto simp: await_subscription_def Let_def split: sum.splits)
qed

lemma requestHandler_try_filter:
  assumes "requestHandler_try rt a evs = Some (r, s, rest)"
  shows "filter reply_or_teardown (effects s) = []"
proof -
  have init: "filter reply_or_teardown (effects (emit (RouterInvoke t i p) initial_state)) = []"
    for t i p
    by (simp add: emit_def initial_state_def)
  have init0: "filter reply_or_teardown (effects initial_state) = []"
    by (simp add: initial_state_def)
  from assms show ?thesis
    by (auto simp: requestHandler_try_def post_branch_def get_branch_def patch_branch_def
        invoke_def init init0 await_subscription_filter
        split: sum.splits if_splits)
qed

lemma post_branch_completes: "post_branch rt a ctx evs \<noteq> None"
  by (simp add: post_branch_def invoke_def split: sum.splits)

lemma get_branch_completes: "get_branch rt a ctx evs \<noteq> None"
  by (simp add: get_branch_def invoke_def split: sum.splits)

lemma patch_branch_completes:
  assumes "evs \<noteq> []"
  shows "patch_branch rt a ctx evs \<noteq> None"
  using await_subscription_completes [OF assms]
  by (simp add: patch_branch_def invoke_def split: sum.splits)

lemma requestHandler_try_completes:
  assumes "evs \<noteq> [] \<or> request_method a \<noteq> ''PATCH''"
  shows "requestHandler_try rt a evs \<noteq> None"
proof (cases "createContext a (req a)")
  case (Inl err)
  then show ?thesis by (simp add: requestHandler_try_def)
next
  case (Inr ctx)
  show ?thesis
  proof (cases "request_method a = ''PATCH''")
    case True
    with assms have "evs \<noteq> []" by simp
    then have "patch_branch rt a ctx evs \<noteq> None"
      by (rule patch_branch_completes)
    with True Inr show ?thesis
      by (simp add: requestHandler_try_def)
  next
    case False
    with Inr post_branch_completes [of rt a ctx evs] get_branch_completes [of rt a ctx evs]
    show ?thesis
      by (auto simp: requestHandler_try_def)
  qed
qed

lemma ignores_teardown:
  "request_method (a\<lparr>teardown := t\<rparr>) = request_method a"
  "the_transformer (a\<lparr>teardown := t\<rparr>) = the_transformer a"
  "subscription_timeout (a\<lparr>teardown := t\<rparr>) = subscription_timeout a"
  "invoke (a\<lparr>teardown := t\<rparr>) target inp ctx s = invoke a target inp ctx s"
  by (simp_all add: request_method_def the_transformer_def subscription_timeout_def invoke_def)

lemma branches_ignore_teardown:
  "post_branch rt (a\<lparr>teardown := t\<rparr>) ctx evs = post_branch rt a ctx evs"
  "get_branch rt (a\<lparr>teardown := t\<rparr>) ctx evs = get_branch rt a ctx evs"
  "patch_branch rt (a\<lparr>teardown := t\<rparr>) ctx evs = patch_branch rt a ctx evs"
  by (simp_all add: post_branch_def get_branch_def patch_branch_def ignores_teardown
      cong: sum.case_cong)

lemma requestHandler_try_ignores_teardown:
  "requestHandler_try rt (a\<lparr>teardown := t\<rparr>) evs = requestHandler_try rt a evs"
  by (simp add: requestHandler_try_def ignores_teardown branches_ignore_teardown
      cong: sum.case_cong if_cong)

lemma response_json_ignores_teardown:
  "response_json rt (a\<lparr>teardown := t\<rparr>) r = response_json rt a r"
  by (simp add: response_json_def ignores_teardown cong: sum.case_cong)

lemma filter_teardown_effects:
  "filter reply_or_teardown (teardown_effects t) = teardown_effects t"
  by (cases t rule: teardown_effects.cases) simp_all

lemma observed_reply_then_teardown:
  assumes "evs \<noteq> [] \<or> request_method a \<noteq> ''PATCH''"
  shows "\<exists>json. \<forall>t. map_option (filter reply_or_teardown) (observed rt (a\<lparr>teardown := t\<rparr>) evs)
                       = Some (ResJson json # teardown_effects t)"
proof -
  have "requestHandler_try rt a evs \<noteq> None"
    using assms by (rule requestHandler_try_completes)
  then obtain r s rest where tr: "requestHandler_try rt a evs = Some (r, s, rest)"
    by (cases "requestHandler_try rt a evs") auto
  have quiet: "filter reply_or_teardown (effects s) = []"
    using tr by (rule requestHandler_try_filter)
  have "map_option (filter reply_or_teardown) (observed rt (a\<lparr>teardown := t\<rparr>) evs)
          = Some (ResJson (response_json rt a r) # teardown_effects t)" for t
    by (simp add: observed_def requestHandler_def requestHandler_try_ignores_teardown tr
        response_json_ignores_teardown drain_filter emit_def quiet filter_teardown_effects)
  then show ?thesis
    by blast
qed

lemma requestHandler_res_returning:
  "requestHandler_res (\<lambda>json. None) rt a evs
     = map_option (\<lambda>(s, rest). (None, s, rest)) (requestHandler rt a evs)"
  by (simp add: requestHandler_res_def requestHandler_def response_json_def emit_def Let_def
      split: option.splits sum.splits prod.splits)

lemma observed_res_returning:
  "observed_res (\<lambda>json. None) rt a evs = map_option (Pair None) (observed rt a evs)"
  by (simp add: observed_res_def observed_def requestHandler_res_returning
      split: option.splits prod.splits)

lemma count_list_filter:
  "P x \<Longrightarrow> count_list (filter P xs) x = count_list xs x"
  by (induction xs) auto

lemma observed_res_projection:
  assumes "map_option (filter reply_or_teardown) (observed rt a evs) = Some shown"
  shows "map_option (apsnd (filter reply_or_teardown)) (observed_res (\<lambda>json. None) rt a evs)
           = Some (None, shown)"
    and "map_option (\<lambda>(thrown, lg). count_list lg TeardownCall) (observed_res (\<lambda>json. None) rt a evs)
           = Some (count_list shown TeardownCall)"
proof -
  from assms obtain lg where lg: "observed rt a evs = Some lg"
    and shown: "shown = filter reply_or_teardown lg"
    by (cases "observed rt a evs") auto
  show "map_option (apsnd (filter reply_or_teardown)) (observed_res (\<lambda>json. None) rt a evs)
           = Some (None, shown)"
    by (simp add: observed_res_returning lg shown)
  have "count_list (filter reply_or_teardown lg) TeardownCall = count_list lg TeardownCall"
    by (rule count_list_filter) simp
  then show "map_option (\<lambda>(thrown, lg). count_list lg TeardownCall)
               (observed_res (\<lambda>json. None) rt a evs)
           = Some (count_list shown TeardownCall)"
    by (simp add: observed_res_returning lg shown)
qed

text \<open>
  When the reply in the \<open>catch\<close> block throws, the handler throws and the teardown hook is
  not called: the statement of claim C5 needs a response whose \<open>json\<close> returns.
\<close>

lemma reply_throwing_in_catch_skips_teardown:
  "observed_res (\<lambda>json. if ok json then None else Some (plain_error ''write after end''))
     (example_runtime (Some ''production''))
     (example_args ''DELETE''\<lparr>teardown := Some (Inr ())\<rparr>) []
   = Some (Some (plain_error ''write after end''),
           [ResJson (HTTPErrorResponseEnvelope 400 ''Unexpected request method DELETE'' None)])"
  by (simp add: observed_res_def requestHandler_res_def requestHandler_try_def request_method_def
      example_args_def example_runtime_def getErrorResponseEnvelope_def httpError_badRequest_def
      HTTPError_def emit_def initial_state_def Let_def)

text \<open>
  Claim C5. For every request whose awaited steps settle (for a subscription: at least one
  of output, error, disconnect or deadline occurs) and whose response's \<open>json\<close> returns,
  whichever branch executes, exactly one envelope \<open>json\<close> is written to the response, and
  the teardown hook, when provided, is invoked exactly once, after that envelope: the
  replies and teardown effects of the request are \<open>res.json(json)\<close> alone without a hook,
  \<open>res.json(json)\<close> and one call of the hook with a hook that returns, and
  \<open>res.json(json)\<close>, one call of the hook and \<open>console.error\<close> of the failure with a hook
  that throws. In all three cases the handler returns (nothing is thrown out of it) and
  the envelope is the same one, and the whole effect log has no call of the hook in the
  first case and exactly one in the other two.
\<close>

theorem teardown_once_after_envelope:
  assumes "evs \<noteq> [] \<or> request_method a \<noteq> ''PATCH''"
    and "\<forall>json. res_json json = None"
  shows "\<exists>json.
      map_option (apsnd (filter reply_or_teardown))
          (observed_res res_json rt (a\<lparr>teardown := None\<rparr>) evs)
        = Some (None, [ResJson json])
    \<and> map_option (apsnd (filter reply_or_teardown))
          (observed_res res_json rt (a\<lparr>teardown := Some (Inr ())\<rparr>) evs)
        = Some (None, [ResJson json, TeardownCall])
    \<and> (\<forall>err. map_option (apsnd (filter reply_or_teardown))
          (observed_res res_json rt (a\<lparr>teardown := Some (Inl err)\<rparr>) evs)
        = Some (None, [ResJson json, TeardownCall, ConsoleError err]))
    \<and> map_option (\<lambda>(thrown, lg). count_list lg TeardownCall)
          (observed_res res_json rt (a\<lparr>teardown := None\<rparr>) evs) = Some 0
    \<and> map_option (\<lambda>(thrown, lg). count_list lg TeardownCall)
          (observed_res res_json rt (a\<lparr>teardown := Some (Inr ())\<rparr>) evs) = Some 1
    \<and> (\<forall>err. map_option (\<lambda>(thrown, lg). count_list lg TeardownCall)
          (observed_res res_json rt (a\<lparr>teardown := Some (Inl err)\<rparr>) evs) = Some 1)"
proof -
  from assms(2) have returning: "res_json = (\<lambda>json. None)"
    by (simp add: fun_eq_iff)
  from observed_reply_then_teardown [OF assms(1), where rt = rt]
  obtain json where all: "\<And>t. map_option (filter reply_or_teardown)
        (observed rt (a\<lparr>teardown := t\<rparr>) evs) = Some (ResJson json # teardown_effects t)"
    by blast
  have none: "map_option (filter reply_or_teardown) (observed rt (a\<lparr>teardown := None\<rparr>) evs)
        = Some [ResJson json]"
    using all [of None] by simp
  have ret: "map_option (filter reply_or_teardown)
        (observed rt (a\<lparr>teardown := Some (Inr ())\<rparr>) evs) = Some [ResJson json, TeardownCall]"
    using all [of "Some (Inr ())"] by simp
  have thr: "map_option (filter reply_or_teardown)
        (observed rt (a\<lparr>teardown := Some (Inl err)\<rparr>) evs)
        = Some [ResJson json, TeardownCall, ConsoleError err]" for err
    using all [of "Some (Inl err)"] by simp
  show ?thesis
    unfolding returning
    using observed_res_projection [OF none] observed_res_projection [OF ret]
      observed_res_projection [OF thr]
    by (intro exI [of _ json]) simp
qed

theorem teardown_once_after_envelope_witness:
  "[ResClose] \<noteq> []
   \<and> (\<forall>json :: HTTPResponseEnvelope. (\<lambda>j. None :: js_error option) json = None)
   \<and> map_option (apsnd (filter reply_or_teardown))
        (observed_res (\<lambda>j. None) (example_runtime None)
           (example_args ''PATCH''\<lparr>teardown := Some (Inr ())\<rparr>) [ResClose])
       = Some (None, [ResJson (HTTPErrorResponseEnvelope 500 ''destroyed'' (Some ''at destroy'')),
                      TeardownCall])
   \<and> map_option (apsnd (filter reply_or_teardown))
        (observed_res (\<lambda>j. None) (example_runtime None)
           (example_args ''PATCH''\<lparr>teardown := Some (Inl (plain_error ''db busy''))\<rparr>) [ResClose])
       = Some (None, [ResJson (HTTPErrorResponseEnvelope 500 ''destroyed'' (Some ''at destroy'')),
                      TeardownCall, ConsoleError (plain_error ''db busy'')])
   \<and> map_option (\<lambda>(thrown, lg). count_list lg TeardownCall)
        (observed_res (\<lambda>j. None) (example_runtime None)
           (example_args ''PATCH''\<lparr>teardown := Some (Inr ())\<rparr>) [ResClose]) = Some 1"
proof -
  have h1: "[ResClose] \<noteq> [] \<or> request_method (example_args ''PATCH'') \<noteq> ''PATCH''"
    by simp
  have h2: "\<forall>json :: HTTPResponseEnvelope. (\<lambda>j. None :: js_error option) json = None"
    by simp
  from teardown_once_after_envelope [OF h1 h2, where rt = "example_runtime None"]
  obtain json where
    none: "map_option (apsnd (filter reply_or_teardown))
        (observed_res (\<lambda>j. None) (example_runtime None)
           (example_args ''PATCH''\<lparr>teardown := None\<rparr>) [ResClose]) = Some (None, [ResJson json])"
    and ret: "map_option (apsnd (filter reply_or_teardown))
        (observed_res (\<lambda>j. None) (example_runtime None)
           (example_args ''PATCH''\<lparr>teardown := Some (Inr ())\<rparr>) [ResClose])
        = Some (None, [ResJson json, TeardownCall])"
    and thr: "\<And>err. map_option (apsnd (filter reply_or_teardown))
        (observed_res (\<lambda>j. None) (example_runtime None)
           (example_args ''PATCH''\<lparr>teardown := Some (Inl err)\<rparr>) [ResClose])
        = Some (None, [ResJson json, TeardownCall, ConsoleError err])"
    and once: "map_option (\<lambda>(thrown, lg). count_list lg TeardownCall)
        (observed_res (\<lambda>j. None) (example_runtime None)
           (example_args ''PATCH''\<lparr>teardown := Some (Inr ())\<rparr>) [ResClose]) = Some 1"
    by blast
  have "map_option (apsnd (filter reply_or_teardown))
        (observed_res (\<lambda>j. None) (example_runtime None)
           (example_args ''PATCH''\<lparr>teardown := None\<rparr>) [ResClose])
       = Some (None, [ResJson (HTTPErrorResponseEnvelope 500 ''destroyed'' (Some ''at destroy''))])"
    by (simp add: observed_res_def requestHandler_res_def handler_eval)
  with none have "json = HTTPErrorResponseEnvelope 500 ''destroyed'' (Some ''at destroy'')"
    by simp
  with ret thr [of "plain_error ''db busy''"] once show ?thesis
    by simp
qed

section \<open>Reading the input of a request\<close>

lemma getQueryInput_falsy:
  assumes "\<not> truthy (query_input rq)"
  shows "getQueryInput rt rq = Inr JUndefined"
  using assms by (simp add: getQueryInput_def)

lemma getQueryInput_malformed:
  assumes "truthy (query_input rq)"
    and "case query_input rq of JStr s \<Rightarrow> JSON_parse rt s = None | _ \<Rightarrow> True"
  shows "getQueryInput rt rq
     = Inl (HTTPError rt 400 ''Expected query.input to be a JSON string'')"
  using assms
  by (cases "query_input rq") (simp_all add: getQueryInput_def httpError_badRequest_def)

lemma deserializeInput_undefined: "deserializeInput tr JUndefined = Inr JUndefined"
  by (simp add: deserializeInput_def)

lemma requestHandler_try_query_no_input:
  assumes "createContext a (req a) = Inr ctx"
    and "request_method a = ''GET''"
    and "\<not> truthy (query_input (req a))"
  shows "requestHandler_try rt a evs
     = Some (router_invoke a Queries JUndefined ctx (endpoint_path a),
             emit (RouterInvoke Queries JUndefined (endpoint_path a)) initial_state, evs)"
  using assms
  by (simp add: requestHandler_try_def get_branch_def getQueryInput_falsy
      deserializeInput_undefined invoke_def)

lemma body_input_no_input:
  assumes "b \<noteq> JUndefined" and "b \<noteq> JNull"
    and "case b of JObj kvs \<Rightarrow> map_of kvs ''input'' = None | _ \<Rightarrow> True"
  shows "body_input rt b = Inr JUndefined"
  using assms by (cases b) simp_all

lemma requestHandler_try_mutation_no_input:
  assumes "createContext a (req a) = Inr ctx"
    and "request_method a = ''POST''"
    and "body (req a) \<noteq> JUndefined" and "body (req a) \<noteq> JNull"
    and "case body (req a) of JObj kvs \<Rightarrow> map_of kvs ''input'' = None | _ \<Rightarrow> True"
  shows "requestHandler_try rt a evs
     = Some (router_invoke a Mutations JUndefined ctx (endpoint_path a),
             emit (RouterInvoke Mutations JUndefined (endpoint_path a)) initial_state, evs)"
  using assms(1,2) body_input_no_input [OF assms(3-5), of rt]
  by (simp add: requestHandler_try_def post_branch_def deserializeInput_undefined invoke_def)

lemma requestHandler_try_subscription_no_input:
  assumes "createContext a (req a) = Inr ctx"
    and "request_method a = ''PATCH''"
    and "body (req a) \<noteq> JUndefined" and "body (req a) \<noteq> JNull"
    and "case body (req a) of JObj kvs \<Rightarrow> map_of kvs ''input'' = None | _ \<Rightarrow> True"
  shows "requestHandler_try rt a evs
     = (case router_invoke a Subscriptions JUndefined ctx (endpoint_path a) of
          Inl err \<Rightarrow>
            Some (Inl err, emit (RouterInvoke Subscriptions JUndefined (endpoint_path a)) initial_state,
                  evs)
        | Inr sub \<Rightarrow>
            await_subscription rt (subscription_timeout a)
              (emit (RouterInvoke Subscriptions JUndefined (endpoint_path a)) initial_state) evs)"
  using assms(1,2) body_input_no_input [OF assms(3-5), of rt]
  by (simp add: requestHandler_try_def patch_branch_def deserializeInput_undefined invoke_def
      split: sum.splits)

lemma observed_query_malformed:
  assumes "createContext a (req a) = Inr ctx"
    and "request_method a = ''GET''"
    and "truthy (query_input (req a))"
    and "case query_input (req a) of JStr s \<Rightarrow> JSON_parse rt s = None | _ \<Rightarrow> True"
  shows "observed rt a evs
     = Some (ResJson (HTTPErrorResponseEnvelope 400 ''Expected query.input to be a JSON string''
               (if NODE_ENV rt \<noteq> Some ''production''
                then captureStack rt ''Expected query.input to be a JSON string'' else None))
             # teardown_effects (teardown a))"
proof -
  have "requestHandler_try rt a evs
     = Some (Inl (HTTPError rt 400 ''Expected query.input to be a JSON string''), initial_state, evs)"
    using assms(1,2) getQueryInput_malformed [OF assms(3,4)]
    by (simp add: requestHandler_try_def get_branch_def)
  then show ?thesis
    by (simp add: observed_def requestHandler_def response_json_def emit_def drain_idle
        getErrorResponseEnvelope_HTTPError initial_state_def)
qed

text \<open>
  Claim C8, as stated: a query \<open>input\<close> that is present but not parseable as JSON yields a
  400 failure. A query \<open>input\<close> that is present as the empty string, which \<open>JSON.parse\<close>
  rejects, is treated as absent (\<open>if (!queryInput) return input\<close>): \<open>getQueryInput\<close>
  returns \<open>undefined\<close>, and the procedure is invoked and its result returned.
\<close>

theorem empty_query_input_counterexample:
  "map_of (query \<lparr>http_method = Some ''GET'', query = [(''input'', JStr '''')], body = JUndefined\<rparr>) ''input''
      = Some (JStr '''')
   \<and> JSON_parse (example_runtime None) '''' = None
   \<and> getQueryInput (example_runtime None)
        \<lparr>http_method = Some ''GET'', query = [(''input'', JStr '''')], body = JUndefined\<rparr> = Inr JUndefined
   \<and> observed (example_runtime (Some ''production''))
        (example_args ''GET''\<lparr>req := \<lparr>http_method = Some ''GET'', query = [(''input'', JStr '''')],
                                        body = JUndefined\<rparr>\<rparr>) []
      = Some [RouterInvoke Queries JUndefined ''todos/list'',
              ResJson (HTTPSuccessResponseEnvelope 200 (JStr ''result''))]"
  by (simp add: handler_eval)

text \<open>
  Claim C8, amended. A query \<open>input\<close> that is absent or falsy (the empty string) yields
  \<open>undefined\<close> input, never an error, and a read then invokes the procedure with
  \<open>undefined\<close>. A write, \<open>POST\<close> or \<open>PATCH\<close>, whose body is present (neither \<open>undefined\<close>
  nor \<open>null\<close>) and has no \<open>input\<close> invokes the procedure with \<open>undefined\<close>: the
  mutation's result is the result of the \<open>try\<close> block, and the subscription is awaited
  (or the failure of its creation is the result). A query \<open>input\<close> that is truthy and is
  not a string, or is a string that \<open>JSON.parse\<close> rejects, yields an HTTP error with
  statusCode 400 and the fixed message \<open>Expected query.input to be a JSON string\<close>,
  whatever the parse error says, and a read then answers with that failure envelope.
  (The handler statements are for requests whose context was created; nothing is stated
  about a write whose request has no body.)
\<close>

theorem request_input_absent_or_malformed:
  "(\<not> truthy (query_input rq) \<longrightarrow> getQueryInput rt rq = Inr JUndefined)
   \<and> (truthy (query_input rqm)
        \<and> (case query_input rqm of JStr s \<Rightarrow> JSON_parse rt s = None | _ \<Rightarrow> True) \<longrightarrow>
       getQueryInput rt rqm = Inl (HTTPError rt 400 ''Expected query.input to be a JSON string''))
   \<and> (createContext aq (req aq) = Inr cq \<and> request_method aq = ''GET''
        \<and> \<not> truthy (query_input (req aq)) \<longrightarrow>
       requestHandler_try rt aq evs
         = Some (router_invoke aq Queries JUndefined cq (endpoint_path aq),
                 emit (RouterInvoke Queries JUndefined (endpoint_path aq)) initial_state, evs))
   \<and> (createContext aw (req aw) = Inr cw \<and> request_method aw = ''POST''
        \<and> body (req aw) \<noteq> JUndefined \<and> body (req aw) \<noteq> JNull
        \<and> (case body (req aw) of JObj kvs \<Rightarrow> map_of kvs ''input'' = None | _ \<Rightarrow> True) \<longrightarrow>
       requestHandler_try rt aw evs
         = Some (router_invoke aw Mutations JUndefined cw (endpoint_path aw),
                 emit (RouterInvoke Mutations JUndefined (endpoint_path aw)) initial_state, evs))
   \<and> (createContext ap (req ap) = Inr cp \<and> request_method ap = ''PATCH''
        \<and> body (req ap) \<noteq> JUndefined \<and> body (req ap) \<noteq> JNull
        \<and> (case body (req ap) of JObj kvs \<Rightarrow> map_of kvs ''input'' = None | _ \<Rightarrow> True) \<longrightarrow>
       requestHandler_try rt ap evs
         = (case router_invoke ap Subscriptions JUndefined cp (endpoint_path ap) of
              Inl err \<Rightarrow>
                Some (Inl err,
                      emit (RouterInvoke Subscriptions JUndefined (endpoint_path ap)) initial_state, evs)
            | Inr sub \<Rightarrow>
                await_subscription rt (subscription_timeout ap)
                  (emit (RouterInvoke Subscriptions JUndefined (endpoint_path ap)) initial_state) evs))
   \<and> (createContext am (req am) = Inr cm \<and> request_method am = ''GET''
        \<and> truthy (query_input (req am))
        \<and> (case query_input (req am) of JStr s \<Rightarrow> JSON_parse rt s = None | _ \<Rightarrow> True) \<longrightarrow>
       observed rt am evs
         = Some (ResJson (HTTPErrorResponseEnvelope 400 ''Expected query.input to be a JSON string''
                   (if NODE_ENV rt \<noteq> Some ''production''
                    then captureStack rt ''Expected query.input to be a JSON string'' else None))
                 # teardown_effects (teardown am)))"
proof (intro conjI impI; (elim conjE)?)
  assume "\<not> truthy (query_input rq)"
  then show "getQueryInput rt rq = Inr JUndefined"
    by (rule getQueryInput_falsy)
next
  assume "truthy (query_input rqm)"
    and "case query_input rqm of JStr s \<Rightarrow> JSON_parse rt s = None | _ \<Rightarrow> True"
  then show "getQueryInput rt rqm = Inl (HTTPError rt 400 ''Expected query.input to be a JSON string'')"
    by (rule getQueryInput_malformed)
next
  assume "createContext aq (req aq) = Inr cq" and "request_method aq = ''GET''"
    and "\<not> truthy (query_input (req aq))"
  then show "requestHandler_try rt aq evs
         = Some (router_invoke aq Queries JUndefined cq (endpoint_path aq),
                 emit (RouterInvoke Queries JUndefined (endpoint_path aq)) initial_state, evs)"
    by (rule requestHandler_try_query_no_input)
next
  assume "createContext aw (req aw) = Inr cw" and "request_method aw = ''POST''"
    and "body (req aw) \<noteq> JUndefined" and "body (req aw) \<noteq> JNull"
    and "case body (req aw) of JObj kvs \<Rightarrow> map_of kvs ''input'' = None | _ \<Rightarrow> True"
  then show "requestHandler_try rt aw evs
         = Some (router_invoke aw Mutations JUndefined cw (endpoint_path aw),
                 emit (RouterInvoke Mutations JUndefined (endpoint_path aw)) initial_state, evs)"
    by (rule requestHandler_try_mutation_no_input)
next
  assume "createContext ap (req ap) = Inr cp" and "request_method ap = ''PATCH''"
    and "body (req ap) \<noteq> JUndefined" and "body (req ap) \<noteq> JNull"
    and "case body (req ap) of JObj kvs \<Rightarrow> map_of kvs ''input'' = None | _ \<Rightarrow> True"
  then show "requestHandler_try rt ap evs
         = (case router_invoke ap Subscriptions JUndefined cp (endpoint_path ap) of
              Inl err \<Rightarrow>
                Some (Inl err,
                      emit (RouterInvoke Subscriptions JUndefined (endpoint_path ap)) initial_state, evs)
            | Inr sub \<Rightarrow>
                await_subscription rt (subscription_timeout ap)
                  (emit (RouterInvoke Subscriptions JUndefined (endpoint_path ap)) initial_state) evs)"
    by (rule requestHandler_try_subscription_no_input)
next
  assume "createContext am (req am) = Inr cm" and "request_method am = ''GET''"
    and "truthy (query_input (req am))"
    and "case query_input (req am) of JStr s \<Rightarrow> JSON_parse rt s = None | _ \<Rightarrow> True"
  then show "observed rt am evs
         = Some (ResJson (HTTPErrorResponseEnvelope 400 ''Expected query.input to be a JSON string''
                   (if NODE_ENV rt \<noteq> Some ''production''
                    then captureStack rt ''Expected query.input to be a JSON string'' else None))
                 # teardown_effects (teardown am))"
    by (rule observed_query_malformed)
qed

theorem request_input_absent_or_malformed_witness:
  "\<not> truthy (query_input (req (example_args ''GET'')))
   \<and> truthy (query_input malformed_query_request)
   \<and> (case query_input malformed_query_request of
         JStr s \<Rightarrow> JSON_parse (example_runtime (Some ''production'')) s = None | _ \<Rightarrow> True)
   \<and> createContext (example_args ''GET'') (req (example_args ''GET'')) = Inr ()
   \<and> request_method (example_args ''GET'') = ''GET''
   \<and> createContext (example_args ''POST'') (req (example_args ''POST'')) = Inr ()
   \<and> request_method (example_args ''POST'') = ''POST''
   \<and> body (req (example_args ''POST'')) \<noteq> JUndefined
   \<and> body (req (example_args ''POST'')) \<noteq> JNull
   \<and> (case body (req (example_args ''POST'')) of
         JObj kvs \<Rightarrow> map_of kvs ''input'' = None | _ \<Rightarrow> True)
   \<and> request_method (example_args ''PATCH'') = ''PATCH''
   \<and> body (req (example_args ''PATCH'')) \<noteq> JUndefined
   \<and> body (req (example_args ''PATCH'')) \<noteq> JNull
   \<and> request_method (example_args ''GET''\<lparr>req := malformed_query_request\<rparr>) = ''GET''
   \<and> getQueryInput (example_runtime (Some ''production'')) (req (example_args ''GET'')) = Inr JUndefined
   \<and> getQueryInput (example_runtime (Some ''production'')) malformed_query_request
       = Inl (HTTPError (example_runtime (Some ''production'')) 400
               ''Expected query.input to be a JSON string'')
   \<and> requestHandler_try (example_runtime (Some ''production'')) (example_args ''GET'') []
       = Some (Inr (JStr ''result''),
               emit (RouterInvoke Queries JUndefined ''todos/list'') initial_state, [])
   \<and> requestHandler_try (example_runtime (Some ''production'')) (example_args ''POST'') []
       = Some (Inr (JStr ''result''),
               emit (RouterInvoke Mutations JUndefined ''todos/list'') initial_state, [])
   \<and> requestHandler_try (example_runtime (Some ''production'')) (example_args ''PATCH'') []
       = await_subscription (example_runtime (Some ''production'')) 50
           (emit (RouterInvoke Subscriptions JUndefined ''todos/list'') initial_state) []
   \<and> observed (example_runtime (Some ''production''))
        (example_args ''GET''\<lparr>req := malformed_query_request\<rparr>) []
       = Some [ResJson (HTTPErrorResponseEnvelope 400 ''Expected query.input to be a JSON string'' None)]"
proof -
  have h: "\<not> truthy (query_input (req (example_args ''GET'')))"
    "truthy (query_input malformed_query_request)"
    "case query_input malformed_query_request of
         JStr s \<Rightarrow> JSON_parse (example_runtime (Some ''production'')) s = None | _ \<Rightarrow> True"
    "createContext (example_args ''GET'') (req (example_args ''GET'')) = Inr ()"
    "request_method (example_args ''GET'') = ''GET''"
    "createContext (example_args ''POST'') (req (example_args ''POST'')) = Inr ()"
    "request_method (example_args ''POST'') = ''POST''"
    "body (req (example_args ''POST'')) \<noteq> JUndefined"
    "body (req (example_args ''POST'')) \<noteq> JNull"
    "case body (req (example_args ''POST'')) of
         JObj kvs \<Rightarrow> map_of kvs ''input'' = None | _ \<Rightarrow> True"
    "createContext (example_args ''PATCH'') (req (example_args ''PATCH'')) = Inr ()"
    "request_method (example_args ''PATCH'') = ''PATCH''"
    "body (req (example_args ''PATCH'')) \<noteq> JUndefined"
    "body (req (example_args ''PATCH'')) \<noteq> JNull"
    "case body (req (example_args ''PATCH'')) of
         JObj kvs \<Rightarrow> map_of kvs ''input'' = None | _ \<Rightarrow> True"
    "request_method (example_args ''GET''\<lparr>req := malformed_query_request\<rparr>) = ''GET''"
    "createContext (example_args ''GET''\<lparr>req := malformed_query_request\<rparr>)
       (req (example_args ''GET''\<lparr>req := malformed_query_request\<rparr>)) = Inr ()"
    "req (example_args ''GET''\<lparr>req := malformed_query_request\<rparr>) = malformed_query_request"
    by (simp_all add: example_args_def example_runtime_def malformed_query_request_def
        query_input_def request_method_def)
  show ?thesis
    using h request_input_absent_or_malformed
      [where rt = "example_runtime (Some ''production'')"
        and rq = "req (example_args ''GET'')" and rqm = malformed_query_request
        and aq = "example_args ''GET''" and cq = "()"
        and aw = "example_args ''POST''" and cw = "()"
        and ap = "example_args ''PATCH''" and cp = "()"
        and am = "example_args ''GET''\<lparr>req := malformed_query_request\<rparr>" and cm = "()"
        and evs = "[]"]
    by (simp add: example_args_def example_runtime_def subscription_timeout_def)
qed

end
